theory Spec2Isabelle
  imports Main "HOL-Library.Word" "HOL-Library.AList"
begin

unbundle bit_operations_syntax

section \<open>Exceptions, bytes and JSON values\<close>

text \<open>
  The exception classes of \<^verbatim>\<open>exceptions.py\<close>, together with the library exceptions
  the code catches by class (\<^verbatim>\<open>httpx.HTTPStatusError\<close>, which carries the response's
  status code and text, \<^verbatim>\<open>httpx.RequestError\<close>, \<^verbatim>\<open>json.JSONDecodeError\<close>) and one
  constructor for every other Python exception (\<^verbatim>\<open>KeyError\<close>, \<^verbatim>\<open>TypeError\<close>,
  \<^verbatim>\<open>AttributeError\<close>, ...), named by its class. All of them derive from
  \<^verbatim>\<open>Exception\<close>.
\<close>

datatype exn_kind =
    AvroCurioError
  | SchemaNotFoundError
  | InvalidWireFormatError
  | SerializationError
  | DeserializationError
  | SchemaMismatchError
  | SchemaMatchError
  | HTTPStatusError int string
  | RequestError
  | JSONDecodeError
  | OtherException string

text \<open>
  An exception value: its class, the text \<^verbatim>\<open>str(e)\<close>, and \<^verbatim>\<open>__context__\<close>, the
  exception that was being handled when this one was raised (Python sets it on every
  \<^verbatim>\<open>raise\<close> inside an \<^verbatim>\<open>except\<close> block).
\<close>

datatype exn = Exn (kind: exn_kind) (message: string) (exc_context: "exn option")

type_synonym byte = "8 word"

text \<open>What \<^verbatim>\<open>json.loads\<close> returns (floats are left out: no schema here uses them).\<close>

datatype json =
    JNull
  | JBool bool
  | JInt int
  | JStr string
  | JList "json list"
  | JDict "(string \<times> json) list"

text \<open>\<^verbatim>\<open>str(n)\<close> for a Python int, as the f-strings of the error messages print it.\<close>

fun show_nat :: "nat \<Rightarrow> string" where
  "show_nat n =
     (if n < 10 then [char_of (48 + n)]
      else show_nat (n div 10) @ [char_of (48 + n mod 10)])"

declare show_nat.simps [simp del]

definition str_int :: "int \<Rightarrow> string" where
  "str_int i = (if i < 0 then CHR ''-'' # show_nat (nat (- i)) else show_nat (nat i))"

section \<open>Wire format codec\<close>

text \<open>
  Modelled from the spec: \<^verbatim>\<open>wire_format.py\<close> (class \<^verbatim>\<open>ConfluentWireFormat\<close>) is
  imported by \<^verbatim>\<open>serializer.py\<close> but is not among the sources. The spec gives the
  frame as one magic byte \<^verbatim>\<open>0x00\<close>, the schema id as a big-endian unsigned 32-bit
  integer, then the payload.
\<close>

definition be32 :: "32 word \<Rightarrow> byte list" where
  "be32 w = [ucast (drop_bit 24 w), ucast (drop_bit 16 w), ucast (drop_bit 8 w), ucast w]"

definition from_be32 :: "byte \<Rightarrow> byte \<Rightarrow> byte \<Rightarrow> byte \<Rightarrow> 32 word" where
  "from_be32 a b c d =
     push_bit 24 (ucast a) OR push_bit 16 (ucast b) OR push_bit 8 (ucast c) OR ucast d"

text \<open>
  Modelled from the spec: \<^verbatim>\<open>encode(schemaId: uint32, payload)\<close> always succeeds and
  produces \<^verbatim>\<open>[0x00][big-endian schemaId][payload]\<close>.
\<close>

definition ConfluentWireFormat_encode :: "32 word \<Rightarrow> byte list \<Rightarrow> byte list" where
  "ConfluentWireFormat_encode schema_id payload = 0 # be32 schema_id @ payload"

text \<open>
  Modelled from the spec: \<^verbatim>\<open>decode(message)\<close> fails with the wire-format error kind
  if the message has fewer than 5 bytes or its first byte is not \<^verbatim>\<open>0x00\<close>; otherwise
  bytes 1 to 4 are the schema id and the rest is the payload.
\<close>

definition ConfluentWireFormat_decode :: "byte list \<Rightarrow> exn + (32 word \<times> byte list)" where
  "ConfluentWireFormat_decode msg =
     (if length msg < 5 then Inl (Exn InvalidWireFormatError ''message too short'' None)
      else if msg ! 0 \<noteq> 0 then Inl (Exn InvalidWireFormatError ''invalid magic byte'' None)
      else Inr (from_be32 (msg ! 1) (msg ! 2) (msg ! 3) (msg ! 4), drop 5 msg))"

section \<open>External libraries\<close>

text \<open>
  The library functions the code calls and does not define: \<^verbatim>\<open>json.loads\<close>,
  \<^verbatim>\<open>json.dumps\<close> (plain, and with \<^verbatim>\<open>sort_keys=True, separators=(",", ":")\<close>),
  fastavro's \<^verbatim>\<open>to_parsing_canonical_form\<close>, \<^verbatim>\<open>fingerprint(..., algorithm='md5')\<close>,
  \<^verbatim>\<open>schemaless_writer\<close> and \<^verbatim>\<open>schemaless_reader\<close> (writer schema, optional reader
  schema), and Python's \<^verbatim>\<open>repr\<close> of a list or dict. They are parameters: every theorem
  holds for whatever these functions compute, and each of them may raise.
\<close>

record pylib =
  json_loads :: "string \<Rightarrow> exn + json"
  json_dumps :: "json \<Rightarrow> exn + string"
  json_dumps_sorted :: "json \<Rightarrow> exn + string"
  to_parsing_canonical_form :: "json \<Rightarrow> exn + string"
  fingerprint :: "string \<Rightarrow> exn + string"
  schemaless_writer :: "json \<Rightarrow> json \<Rightarrow> exn + byte list"
  schemaless_reader :: "byte list \<Rightarrow> json \<Rightarrow> json option \<Rightarrow> exn + json"
  py_repr :: "json \<Rightarrow> string"

section \<open>Calls that may raise and that change state\<close>

text \<open>
  A method of an object with state \<open>'s\<close>: it returns a value or raises, and leaves the
  object in a new state either way.
\<close>

type_synonym ('s, 'a) action = "'s \<Rightarrow> (exn + 'a) \<times> 's"

definition returnS :: "'a \<Rightarrow> ('s, 'a) action" where
  "returnS x s = (Inr x, s)"

definition raiseS :: "exn \<Rightarrow> ('s, 'a) action" where
  "raiseS e s = (Inl e, s)"

definition liftE :: "exn + 'a \<Rightarrow> ('s, 'a) action" where
  "liftE r s = (r, s)"

definition bindS :: "('s, 'a) action \<Rightarrow> ('a \<Rightarrow> ('s, 'b) action) \<Rightarrow> ('s, 'b) action" where
  "bindS m f s = (case m s of (Inl e, s') \<Rightarrow> (Inl e, s') | (Inr x, s') \<Rightarrow> f x s')"

text \<open>\<^verbatim>\<open>try: m  except Exception as e: h(e)\<close>\<close>

definition try_except :: "('s, 'a) action \<Rightarrow> (exn \<Rightarrow> ('s, 'a) action) \<Rightarrow> ('s, 'a) action" where
  "try_except m h s = (case m s of (Inl e, s') \<Rightarrow> h e s' | (Inr x, s') \<Rightarrow> (Inr x, s'))"

section \<open>The in-memory registry client (\<^verbatim>\<open>inmemory_client.py\<close>)\<close>

record SchemaVersion =
  version :: int
  global_id :: int
  schema_content :: string

text \<open>
  The three dicts of \<^verbatim>\<open>InMemoryClient\<close>, as association lists in insertion order
  (\<open>AList.update\<close> replaces the value of a key that is present and appends a new key,
  as assignment to a Python dict does).
\<close>

record InMemoryClient =
  schemas :: "(int \<times> json) list"
  artifacts :: "((string \<times> string) \<times> SchemaVersion list) list"
  schema_to_global_id :: "(string \<times> int) list"

definition InMemoryClient_init :: InMemoryClient where
  "InMemoryClient_init = \<lparr>schemas = [], artifacts = [], schema_to_global_id = []\<rparr>"

definition normalize_schema :: "pylib \<Rightarrow> string \<Rightarrow> exn + string" where
  "normalize_schema L content =
     (case json_loads L content of
        Inl e \<Rightarrow> Inl e
      | Inr schema_dict \<Rightarrow> json_dumps_sorted L schema_dict)"

definition get_next_global_id :: "InMemoryClient \<Rightarrow> int" where
  "get_next_global_id self =
     (if schemas self = [] then 1 else Max (set (map fst (schemas self))) + 1)"

text \<open>
  The four lines that every registration path repeats: create the version list of the
  key if it is missing, then append a version numbered \<^verbatim>\<open>len + 1\<close>.
\<close>

definition append_version ::
  "string \<times> string \<Rightarrow> int \<Rightarrow> string \<Rightarrow> InMemoryClient \<Rightarrow> InMemoryClient" where
  "append_version key gid content self =
     (let versions = (case map_of (artifacts self) key of None \<Rightarrow> [] | Some vs \<Rightarrow> vs);
          version_num = int (length versions) + 1;
          schema_version = \<lparr>version = version_num, global_id = gid, schema_content = content\<rparr>
      in self\<lparr>artifacts := AList.update key (versions @ [schema_version]) (artifacts self)\<rparr>)"

definition has_version_with_id :: "InMemoryClient \<Rightarrow> string \<times> string \<Rightarrow> int \<Rightarrow> bool" where
  "has_version_with_id self key gid =
     (case map_of (artifacts self) key of
        None \<Rightarrow> False
      | Some versions \<Rightarrow> list_ex (\<lambda>v. global_id v = gid) versions)"

text \<open>The part of both registration methods that allocates a new global id.\<close>

definition store_new_schema ::
  "pylib \<Rightarrow> string \<times> string \<Rightarrow> string \<Rightarrow> string \<Rightarrow> (InMemoryClient, int) action" where
  "store_new_schema L key normalized content self =
     (let gid = get_next_global_id self in
      case json_loads L content of
        Inl e \<Rightarrow> (Inl e, self)
      | Inr schema_dict \<Rightarrow>
          (Inr gid,
           append_version key gid content
             (self\<lparr>schemas := AList.update gid schema_dict (schemas self),
                   schema_to_global_id :=
                     AList.update normalized gid (schema_to_global_id self)\<rparr>)))"

definition InMemoryClient_register_schema ::
  "pylib \<Rightarrow> string \<Rightarrow> string \<Rightarrow> string \<Rightarrow> (InMemoryClient, int) action" where
  "InMemoryClient_register_schema L group_name artifact_name content self =
     (case normalize_schema L content of
        Inl e \<Rightarrow> (Inl e, self)
      | Inr normalized \<Rightarrow>
          (case map_of (schema_to_global_id self) normalized of
             Some existing_id \<Rightarrow>
               if has_version_with_id self (group_name, artifact_name) existing_id
               then (Inr existing_id, self)
               else (Inr existing_id,
                     append_version (group_name, artifact_name) existing_id content self)
           | None \<Rightarrow> store_new_schema L (group_name, artifact_name) normalized content self))"

definition InMemoryClient_register_schema_version ::
  "pylib \<Rightarrow> string \<Rightarrow> string \<Rightarrow> string \<Rightarrow> (InMemoryClient, int) action" where
  "InMemoryClient_register_schema_version L group_id artifact_id content self =
     (case normalize_schema L content of
        Inl e \<Rightarrow> (Inl e, self)
      | Inr normalized \<Rightarrow>
          (case map_of (artifacts self) (group_id, artifact_id) of
             None \<Rightarrow>
               (Inl (Exn AvroCurioError
                  (''Artifact '' @ group_id @ ''/'' @ artifact_id @ '' does not exist'') None),
                self)
           | Some _ \<Rightarrow>
               (case map_of (schema_to_global_id self) normalized of
                  Some existing_id \<Rightarrow>
                    if has_version_with_id self (group_id, artifact_id) existing_id
                    then (Inr existing_id, self)
                    else (Inr existing_id,
                          append_version (group_id, artifact_id) existing_id content self)
                | None \<Rightarrow>
                    store_new_schema L (group_id, artifact_id) normalized content self)))"

definition InMemoryClient_get_schema_by_global_id :: "int \<Rightarrow> (InMemoryClient, json) action" where
  "InMemoryClient_get_schema_by_global_id gid self =
     (case map_of (schemas self) gid of
        None \<Rightarrow>
          (Inl (Exn SchemaNotFoundError
             (''Schema with global ID '' @ str_int gid @ '' not found'') None), self)
      | Some schema \<Rightarrow> (Inr schema, self))"

definition InMemoryClient_get_latest_schema ::
  "string \<Rightarrow> string \<Rightarrow> (InMemoryClient, int \<times> json) action" where
  "InMemoryClient_get_latest_schema group_id artifact_id self =
     (case map_of (artifacts self) (group_id, artifact_id) of
        None \<Rightarrow>
          (Inl (Exn SchemaNotFoundError
             (''Schema '' @ group_id @ ''/'' @ artifact_id @ '' not found'') None), self)
      | Some versions \<Rightarrow>
          if versions = [] then
            (Inl (Exn SchemaNotFoundError
               (''Schema '' @ group_id @ ''/'' @ artifact_id @ '' not found'') None), self)
          else
            (let latest_version = last versions in
             case map_of (schemas self) (global_id latest_version) of
               None \<Rightarrow>
                 (Inl (Exn SchemaNotFoundError
                    (''Schema with global ID '' @ str_int (global_id latest_version)
                       @ '' not found'') None), self)
             | Some schema \<Rightarrow> (Inr (global_id latest_version, schema), self)))"

definition InMemoryClient_check_artifact_exists ::
  "string \<Rightarrow> string \<Rightarrow> (InMemoryClient, bool) action" where
  "InMemoryClient_check_artifact_exists group_id artifact_id self =
     (Inr (case map_of (artifacts self) (group_id, artifact_id) of
             None \<Rightarrow> False
           | Some versions \<Rightarrow> length versions > 0), self)"

text \<open>
  \<^verbatim>\<open>find_artifact_by_content\<close>: the inner loop over the versions of one artifact, then
  the outer loop over the artifacts in insertion order. Normalising a stored version
  may raise, which ends the search.
\<close>

fun version_matches :: "pylib \<Rightarrow> string \<Rightarrow> SchemaVersion list \<Rightarrow> exn + bool" where
  "version_matches L normalized [] = Inr False"
| "version_matches L normalized (v # vs) =
     (case normalize_schema L (schema_content v) of
        Inl e \<Rightarrow> Inl e
      | Inr version_normalized \<Rightarrow>
          if version_normalized = normalized then Inr True
          else version_matches L normalized vs)"

fun find_in_artifacts ::
  "pylib \<Rightarrow> string \<Rightarrow> string option \<Rightarrow> ((string \<times> string) \<times> SchemaVersion list) list
     \<Rightarrow> exn + (string \<times> string) option" where
  "find_in_artifacts L normalized group_id [] = Inr None"
| "find_in_artifacts L normalized group_id (((art_group_id, artifact_id), versions) # rest) =
     (if (case group_id of None \<Rightarrow> False | Some g \<Rightarrow> g \<noteq> [] \<and> art_group_id \<noteq> g)
      then find_in_artifacts L normalized group_id rest
      else (case version_matches L normalized versions of
              Inl e \<Rightarrow> Inl e
            | Inr True \<Rightarrow> Inr (Some (art_group_id, artifact_id))
            | Inr False \<Rightarrow> find_in_artifacts L normalized group_id rest))"

definition InMemoryClient_find_artifact_by_content ::
  "pylib \<Rightarrow> string \<Rightarrow> string option \<Rightarrow> (InMemoryClient, (string \<times> string) option) action" where
  "InMemoryClient_find_artifact_by_content L content group_id self =
     (case normalize_schema L content of
        Inl e \<Rightarrow> (Inl e, self)
      | Inr normalized \<Rightarrow> (find_in_artifacts L normalized group_id (artifacts self), self))"

section \<open>Registry states that registration can produce\<close>

text \<open>
  The states of the in-memory registry reached from the empty registry by calls of
  the two registration methods (successful or not).
\<close>

inductive reachable :: "pylib \<Rightarrow> InMemoryClient \<Rightarrow> bool" for L where
  reachable_init: "reachable L InMemoryClient_init"
| reachable_register:
    "reachable L s \<Longrightarrow> reachable L (snd (InMemoryClient_register_schema L g a c s))"
| reachable_version:
    "reachable L s \<Longrightarrow> reachable L (snd (InMemoryClient_register_schema_version L g a c s))"

text \<open>Two schema texts are canonically identical: both normalise, to the same string.\<close>

definition same_canonical :: "pylib \<Rightarrow> string \<Rightarrow> string \<Rightarrow> bool" where
  "same_canonical L c1 c2 =
     (case (normalize_schema L c1, normalize_schema L c2) of
        (Inr a, Inr b) \<Rightarrow> a = b
      | _ \<Rightarrow> False)"

text \<open>\<^verbatim>\<open>self._artifacts.get(key, [])\<close>: the versions registered under a coordinate.\<close>

definition versions_of :: "InMemoryClient \<Rightarrow> string \<times> string \<Rightarrow> SchemaVersion list" where
  "versions_of s key = (case map_of (artifacts s) key of None \<Rightarrow> [] | Some vs \<Rightarrow> vs)"

text \<open>
  What registration keeps true of the three dicts: every stored version's content
  normalises to a key of the content index that maps to the version's global id; every
  indexed id has a stored schema; the index maps different contents to different ids.
\<close>

definition registry_inv :: "pylib \<Rightarrow> InMemoryClient \<Rightarrow> bool" where
  "registry_inv L s \<longleftrightarrow>
     (\<forall>key v. v \<in> set (versions_of s key) \<longrightarrow>
        (\<exists>n. normalize_schema L (schema_content v) = Inr n
           \<and> map_of (schema_to_global_id s) n = Some (global_id v)))
   \<and> (\<forall>n i. map_of (schema_to_global_id s) n = Some i \<longrightarrow> i \<in> fst ` set (schemas s))
   \<and> (\<forall>n1 n2 i. map_of (schema_to_global_id s) n1 = Some i
         \<longrightarrow> map_of (schema_to_global_id s) n2 = Some i \<longrightarrow> n1 = n2)"

section \<open>A small library instance for concrete runs\<close>

text \<open>
  A stand-in for the external libraries, used only to run the model on concrete inputs:
  parsing a schema text drops its blanks (so texts that differ in blanks only are
  canonically identical) and rejects the empty text; the codec writes a string datum
  as its characters' bytes and rejects every other datum.
\<close>

definition demo_lib :: pylib where
  "demo_lib =
     \<lparr>json_loads = (\<lambda>s. if s = [] then Inl (Exn JSONDecodeError ''Expecting value'' None)
                         else Inr (JStr (filter (\<lambda>c. c \<noteq> CHR '' '') s))),
      json_dumps = (\<lambda>j. case j of JStr s \<Rightarrow> Inr s
                         | _ \<Rightarrow> Inl (Exn (OtherException ''TypeError'') ''not a string'' None)),
      json_dumps_sorted = (\<lambda>j. case j of JStr s \<Rightarrow> Inr s
                         | _ \<Rightarrow> Inl (Exn (OtherException ''TypeError'') ''not a string'' None)),
      to_parsing_canonical_form = (\<lambda>j. case j of JStr s \<Rightarrow> Inr s
                         | _ \<Rightarrow> Inl (Exn (OtherException ''SchemaParseException'') ''bad schema'' None)),
      fingerprint = (\<lambda>s. Inr s),
      schemaless_writer = (\<lambda>schema datum. case datum of
                           JStr s \<Rightarrow> Inr (map (\<lambda>c. of_nat (of_char c)) s)
                         | _ \<Rightarrow> Inl (Exn (OtherException ''ValueError'') ''not a string'' None)),
      schemaless_reader = (\<lambda>payload writer_schema reader_schema.
                           Inr (JStr (map (\<lambda>b. char_of (unat b)) payload))),
      py_repr = (\<lambda>j. ''<object>'')\<rparr>"

section \<open>The serializer (\<^verbatim>\<open>serializer.py\<close>)\<close>

text \<open>
  The client the serializer is given: the methods it may call, over the client's own
  state \<open>'c\<close>. \<^verbatim>\<open>ApicurioClient\<close> and \<^verbatim>\<open>InMemoryClient\<close> both provide them
  (\<^verbatim>\<open>protocol.py\<close>); the tests pass a mock.
\<close>

record 'c client_ops =
  get_schema_by_global_id :: "int \<Rightarrow> ('c, json) action"
  get_latest_schema :: "string \<Rightarrow> string \<Rightarrow> ('c, int \<times> json) action"
  find_artifact_by_content :: "string \<Rightarrow> ('c, (string \<times> string) option) action"
  find_artifact_by_fingerprint :: "string \<Rightarrow> ('c, (string \<times> string) option) action"
  register_schema :: "string \<Rightarrow> string \<Rightarrow> string \<Rightarrow> string \<Rightarrow> ('c, int) action"

text \<open>
  What the serializer uses of an \<^verbatim>\<open>AvroModel\<close> class with instances of type \<open>'v\<close>:
  \<^verbatim>\<open>avro_schema()\<close>, \<^verbatim>\<open>avro_schema_to_python()\<close>, \<^verbatim>\<open>asdict()\<close> and \<^verbatim>\<open>parse_obj\<close>.
\<close>

record 'v AvroModel =
  avro_schema :: string
  avro_schema_to_python :: json
  asdict :: "'v \<Rightarrow> json"
  parse_obj :: "json \<Rightarrow> exn + 'v"

record 'c AvroSerializer =
  client :: 'c
  cache_schemas :: bool
  parsed_schema_cache :: "int \<rightharpoonup> json"

text \<open>\<^verbatim>\<open>AvroSerializer(client, cache_schemas=True)\<close>\<close>

definition AvroSerializer_init :: "'c \<Rightarrow> bool \<Rightarrow> 'c AvroSerializer" where
  "AvroSerializer_init c cache = \<lparr>client = c, cache_schemas = cache, parsed_schema_cache = Map.empty\<rparr>"

text \<open>\<^verbatim>\<open>await self.client.m(...)\<close>: the call runs on the client's state.\<close>

definition call_client :: "('c, 'a) action \<Rightarrow> ('c AvroSerializer, 'a) action" where
  "call_client m self = (case m (client self) of (r, c') \<Rightarrow> (r, self\<lparr>client := c'\<rparr>))"

text \<open>
  Modelled from the spec: the call \<^verbatim>\<open>ConfluentWireFormat.encode(schema_id, payload)\<close>
  with a Python int. The spec defines the frame for an unsigned 32-bit id only; for
  any other int no frame exists and the call is taken to raise (as packing an
  out-of-range integer does in Python).
\<close>

definition encode_call :: "int \<Rightarrow> byte list \<Rightarrow> exn + byte list" where
  "encode_call schema_id payload =
     (if 0 \<le> schema_id \<and> schema_id < 2 ^ 32
      then Inr (ConfluentWireFormat_encode (word_of_int schema_id) payload)
      else Inl (Exn (OtherException ''struct.error'') ''argument out of range'' None))"

definition AvroSerializer_get_parsed_schema ::
  "pylib \<Rightarrow> int \<Rightarrow> json \<Rightarrow> ('c AvroSerializer, json) action" where
  "AvroSerializer_get_parsed_schema L schema_id registry_schema self =
     (case (if cache_schemas self then parsed_schema_cache self schema_id else None) of
        Some cached \<Rightarrow> (Inr cached, self)
      | None \<Rightarrow>
          (let schema_content =
                 (case registry_schema of
                    JDict items \<Rightarrow>
                      (case map_of items ''schema'' of
                         Some inner \<Rightarrow> inner
                       | None \<Rightarrow> registry_schema)
                  | _ \<Rightarrow> registry_schema);
               parsed =
                 (case schema_content of
                    JStr content \<Rightarrow>
                      (case json_loads L content of
                         Inl e \<Rightarrow>
                           if kind e = JSONDecodeError
                           then Inl (Exn DeserializationError
                                  (''Invalid JSON schema for ID '' @ str_int schema_id) (Some e))
                           else Inl e
                       | Inr p \<Rightarrow> Inr p)
                  | _ \<Rightarrow> Inr schema_content)
           in case parsed of
                Inl e \<Rightarrow> (Inl e, self)
              | Inr parsed_schema \<Rightarrow>
                  (Inr parsed_schema,
                   if cache_schemas self
                   then self\<lparr>parsed_schema_cache :=
                          (parsed_schema_cache self)(schema_id \<mapsto> parsed_schema)\<rparr>
                   else self)))"

definition AvroSerializer_validate_data_against_schema ::
  "pylib \<Rightarrow> json \<Rightarrow> json \<Rightarrow> exn + unit" where
  "AvroSerializer_validate_data_against_schema L data schema =
     (case schemaless_writer L schema data of
        Inl e \<Rightarrow>
          Inl (Exn SchemaMismatchError (''Data does not match schema: '' @ message e) (Some e))
      | Inr _ \<Rightarrow> Inr ())"

definition AvroSerializer_serialize_with_schema_id ::
  "pylib \<Rightarrow> 'c client_ops \<Rightarrow> 'v AvroModel \<Rightarrow> 'v \<Rightarrow> int
     \<Rightarrow> ('c AvroSerializer, byte list) action" where
  "AvroSerializer_serialize_with_schema_id L ops cls obj schema_id =
     bindS (call_client (get_schema_by_global_id ops schema_id)) (\<lambda>registry_schema.
     bindS (AvroSerializer_get_parsed_schema L schema_id registry_schema) (\<lambda>parsed_schema.
     bindS (liftE (AvroSerializer_validate_data_against_schema L (asdict cls obj) parsed_schema))
       (\<lambda>_.
     bindS (liftE (schemaless_writer L parsed_schema (asdict cls obj))) (\<lambda>avro_payload.
     liftE (encode_call schema_id avro_payload)))))"

text \<open>The body of the \<^verbatim>\<open>try\<close> block of \<^verbatim>\<open>serialize\<close>.\<close>

definition serialize_try ::
  "pylib \<Rightarrow> 'c client_ops \<Rightarrow> 'v AvroModel \<Rightarrow> 'v \<Rightarrow> int option
     \<Rightarrow> ('c AvroSerializer, byte list) action" where
  "serialize_try L ops cls obj schema_id =
     (case schema_id of
        Some sid \<Rightarrow> AvroSerializer_serialize_with_schema_id L ops cls obj sid
      | None \<Rightarrow>
          bindS (call_client (find_artifact_by_content ops (avro_schema cls))) (\<lambda>content_result.
          bindS (case content_result of
                   None \<Rightarrow> call_client (find_artifact_by_fingerprint ops (avro_schema cls))
                 | Some m \<Rightarrow> returnS (Some m)) (\<lambda>match_result.
          case match_result of
            None \<Rightarrow>
              raiseS (Exn SchemaMatchError
                (''No matching schema found in registry for automatic lookup. ''
                 @ ''Please register the schema manually or specify a schema_id.'') None)
          | Some (found_group_id, found_artifact_id) \<Rightarrow>
              bindS (call_client (get_latest_schema ops found_group_id found_artifact_id))
                (\<lambda>(found_schema_id, _).
                   AvroSerializer_serialize_with_schema_id L ops cls obj found_schema_id))))"

text \<open>The \<^verbatim>\<open>except Exception as e\<close> block of \<^verbatim>\<open>serialize\<close>.\<close>

definition serialize_except :: "int option \<Rightarrow> exn \<Rightarrow> exn" where
  "serialize_except schema_id e =
     (if kind e = SerializationError \<or> kind e = SchemaMismatchError \<or> kind e = SchemaMatchError
      then e
      else Exn SerializationError
             (''Failed to serialize object with ''
              @ (case schema_id of
                   Some sid \<Rightarrow> ''schema ID '' @ str_int sid
                 | None \<Rightarrow> ''automatic schema lookup'')
              @ '': '' @ message e)
             (Some e))"

definition AvroSerializer_serialize ::
  "pylib \<Rightarrow> 'c client_ops \<Rightarrow> 'v AvroModel \<Rightarrow> 'v \<Rightarrow> int option
     \<Rightarrow> ('c AvroSerializer, byte list) action" where
  "AvroSerializer_serialize L ops cls obj schema_id =
     try_except (serialize_try L ops cls obj schema_id)
       (\<lambda>e. raiseS (serialize_except schema_id e))"

text \<open>
  The steps shared by \<^verbatim>\<open>deserialize\<close> and \<^verbatim>\<open>deserialize_with_schema\<close>: split the
  frame, fetch the schema of the embedded id, get its parsed form.
\<close>

definition fetch_writer_schema ::
  "pylib \<Rightarrow> 'c client_ops \<Rightarrow> byte list
     \<Rightarrow> ('c AvroSerializer, byte list \<times> json \<times> json) action" where
  "fetch_writer_schema L ops msg =
     bindS (liftE (ConfluentWireFormat_decode msg)) (\<lambda>(schema_id, avro_payload).
     bindS (call_client (get_schema_by_global_id ops (uint schema_id))) (\<lambda>registry_schema.
     bindS (AvroSerializer_get_parsed_schema L (uint schema_id) registry_schema)
       (\<lambda>parsed_schema.
     returnS (avro_payload, registry_schema, parsed_schema))))"

definition deserialize_except :: "string \<Rightarrow> exn \<Rightarrow> exn" where
  "deserialize_except prefix e =
     (if kind e = DeserializationError then e
      else Exn DeserializationError (prefix @ message e) (Some e))"

definition AvroSerializer_deserialize ::
  "pylib \<Rightarrow> 'c client_ops \<Rightarrow> byte list \<Rightarrow> 'v AvroModel \<Rightarrow> ('c AvroSerializer, 'v) action" where
  "AvroSerializer_deserialize L ops msg target_class =
     try_except
       (bindS (fetch_writer_schema L ops msg) (\<lambda>(avro_payload, registry_schema, parsed_schema).
        bindS (liftE (schemaless_reader L avro_payload parsed_schema
                        (Some (avro_schema_to_python target_class)))) (\<lambda>obj_dict.
        liftE (parse_obj target_class obj_dict))))
       (\<lambda>e. raiseS (deserialize_except ''Failed to deserialize message: '' e))"

definition AvroSerializer_deserialize_with_schema ::
  "pylib \<Rightarrow> 'c client_ops \<Rightarrow> byte list \<Rightarrow> 'v AvroModel
     \<Rightarrow> ('c AvroSerializer, 'v \<times> json) action" where
  "AvroSerializer_deserialize_with_schema L ops msg target_class =
     try_except
       (bindS (fetch_writer_schema L ops msg) (\<lambda>(avro_payload, registry_schema, parsed_schema).
        bindS (liftE (schemaless_reader L avro_payload parsed_schema None)) (\<lambda>obj_dict.
        bindS (liftE (parse_obj target_class obj_dict)) (\<lambda>obj.
        returnS (obj, registry_schema)))))
       (\<lambda>e. raiseS (deserialize_except ''Failed to deserialize message with schema: '' e))"

section \<open>Recording the calls made on a client\<close>

datatype client_call =
    CallGetSchemaByGlobalId int
  | CallGetLatestSchema string string
  | CallFindArtifactByContent string
  | CallFindArtifactByFingerprint string
  | CallRegisterSchema string string string string

definition record_call :: "client_call \<Rightarrow> ('c, 'a) action \<Rightarrow> ('c \<times> client_call list, 'a) action" where
  "record_call ev m = (\<lambda>(c, calls). case m c of (r, c') \<Rightarrow> (r, (c', calls @ [ev])))"

text \<open>
  The same client with a call log beside its state: every method call is appended to
  the log and then runs as before (what a mock's call list records).
\<close>

definition recording :: "'c client_ops \<Rightarrow> ('c \<times> client_call list) client_ops" where
  "recording ops =
     \<lparr>get_schema_by_global_id =
        (\<lambda>i. record_call (CallGetSchemaByGlobalId i) (get_schema_by_global_id ops i)),
      get_latest_schema =
        (\<lambda>g a. record_call (CallGetLatestSchema g a) (get_latest_schema ops g a)),
      find_artifact_by_content =
        (\<lambda>s. record_call (CallFindArtifactByContent s) (find_artifact_by_content ops s)),
      find_artifact_by_fingerprint =
        (\<lambda>s. record_call (CallFindArtifactByFingerprint s) (find_artifact_by_fingerprint ops s)),
      register_schema =
        (\<lambda>g a s t. record_call (CallRegisterSchema g a s t) (register_schema ops g a s t))\<rparr>"

text \<open>
  \<^verbatim>\<open>InMemoryClient\<close> as the serializer's client. It defines no
  \<^verbatim>\<open>find_artifact_by_fingerprint\<close>: looking the attribute up raises.
\<close>

definition InMemoryClient_ops :: "pylib \<Rightarrow> InMemoryClient client_ops" where
  "InMemoryClient_ops L =
     \<lparr>get_schema_by_global_id = InMemoryClient_get_schema_by_global_id,
      get_latest_schema = InMemoryClient_get_latest_schema,
      find_artifact_by_content = (\<lambda>s. InMemoryClient_find_artifact_by_content L s None),
      find_artifact_by_fingerprint =
        (\<lambda>s. raiseS (Exn (OtherException ''AttributeError'')
           ''InMemoryClient object has no attribute find_artifact_by_fingerprint'' None)),
      register_schema = (\<lambda>g a s t. InMemoryClient_register_schema L g a s)\<rparr>"

section \<open>Notions used to state the serializer's properties\<close>

text \<open>The three exception classes that the handler of \<^verbatim>\<open>serialize\<close> re-raises as they are.\<close>

definition passes_unwrapped :: "exn \<Rightarrow> bool" where
  "passes_unwrapped e \<longleftrightarrow>
     kind e = SerializationError \<or> kind e = SchemaMismatchError \<or> kind e = SchemaMatchError"

text \<open>
  The client calls that automatic lookup is specified to make, in order, from the
  client state \<open>c0\<close>: resolving a found coordinate asks for its latest schema and, if
  that succeeds, fetches the schema of the id it named; the lookup starts with the
  content search and runs the fingerprint search only when the content search returned
  no coordinate.
\<close>

definition resolve_calls :: "'c client_ops \<Rightarrow> string \<Rightarrow> string \<Rightarrow> 'c \<Rightarrow> client_call list" where
  "resolve_calls ops g a c =
     CallGetLatestSchema g a #
       (case get_latest_schema ops g a c of
          (Inl e, _) \<Rightarrow> []
        | (Inr (sid, _), _) \<Rightarrow> [CallGetSchemaByGlobalId sid])"

definition automatic_lookup_calls :: "'c client_ops \<Rightarrow> string \<Rightarrow> 'c \<Rightarrow> client_call list" where
  "automatic_lookup_calls ops sc c0 =
     CallFindArtifactByContent sc #
       (case find_artifact_by_content ops sc c0 of
          (Inl e, _) \<Rightarrow> []
        | (Inr (Some (g, a)), c1) \<Rightarrow> resolve_calls ops g a c1
        | (Inr None, c1) \<Rightarrow>
            CallFindArtifactByFingerprint sc #
              (case find_artifact_by_fingerprint ops sc c1 of
                 (Inl e, _) \<Rightarrow> []
               | (Inr None, _) \<Rightarrow> []
               | (Inr (Some (g, a)), c2) \<Rightarrow> resolve_calls ops g a c2))"

text \<open>
  The part of \<^verbatim>\<open>_get_parsed_schema\<close> below the cache test: take the \<^verbatim>\<open>"schema"\<close>
  entry of a dict that has one, and parse it with \<^verbatim>\<open>json.loads\<close> if it is a string.
\<close>

definition parse_registry_schema :: "pylib \<Rightarrow> int \<Rightarrow> json \<Rightarrow> exn + json" where
  "parse_registry_schema L schema_id registry_schema =
     (case (case registry_schema of
              JDict items \<Rightarrow>
                (case map_of items ''schema'' of Some inner \<Rightarrow> inner | None \<Rightarrow> registry_schema)
            | _ \<Rightarrow> registry_schema) of
        JStr content \<Rightarrow>
          (case json_loads L content of
             Inl e \<Rightarrow>
               if kind e = JSONDecodeError
               then Inl (Exn DeserializationError
                      (''Invalid JSON schema for ID '' @ str_int schema_id) (Some e))
               else Inl e
           | Inr p \<Rightarrow> Inr p)
      | other \<Rightarrow> Inr other)"

text \<open>
  What \<^verbatim>\<open>_serialize_with_schema_id\<close> does with a parsed schema once it has one: check
  the object's dict against it, write the dict with it, frame the bytes with the id.
\<close>

definition encode_with :: "pylib \<Rightarrow> 'v AvroModel \<Rightarrow> 'v \<Rightarrow> int \<Rightarrow> json \<Rightarrow> exn + byte list" where
  "encode_with L cls obj schema_id parsed_schema =
     (case schemaless_writer L parsed_schema (asdict cls obj) of
        Inl e \<Rightarrow>
          Inl (Exn SchemaMismatchError (''Data does not match schema: '' @ message e) (Some e))
      | Inr avro_payload \<Rightarrow> encode_call schema_id avro_payload)"

text \<open>
  What \<^verbatim>\<open>deserialize\<close> and \<^verbatim>\<open>deserialize_with_schema\<close> do with a parsed schema once
  they have one: read the payload with it as writer schema (and the given reader schema,
  if any), and build the object from the dict read.
\<close>

definition decode_with ::
  "pylib \<Rightarrow> 'v AvroModel \<Rightarrow> byte list \<Rightarrow> json \<Rightarrow> json option \<Rightarrow> exn + 'v" where
  "decode_with L target_class avro_payload writer_schema reader_schema =
     (case schemaless_reader L avro_payload writer_schema reader_schema of
        Inl e \<Rightarrow> Inl e
      | Inr obj_dict \<Rightarrow> parse_obj target_class obj_dict)"

section \<open>Clients and model classes for concrete runs\<close>

text \<open>
  A client without state whose methods return fixed values, as the mock of the
  serializer's tests does; its \<^verbatim>\<open>register_schema\<close> raises.
\<close>

definition mock_ops ::
  "(string \<times> string) option \<Rightarrow> (string \<times> string) option \<Rightarrow> int \<times> json \<Rightarrow> json
     \<Rightarrow> unit client_ops" where
  "mock_ops content_result fingerprint_result latest schema =
     \<lparr>get_schema_by_global_id = (\<lambda>i. returnS schema),
      get_latest_schema = (\<lambda>g a. returnS latest),
      find_artifact_by_content = (\<lambda>s. returnS content_result),
      find_artifact_by_fingerprint = (\<lambda>s. returnS fingerprint_result),
      register_schema =
        (\<lambda>g a s t. raiseS (Exn (OtherException ''AssertionError'') ''not expected'' None))\<rparr>"

text \<open>A model class whose instances are strings, and one whose instances are ints.\<close>

definition text_model :: "string AvroModel" where
  "text_model =
     \<lparr>avro_schema = ''{x:str}'',
      avro_schema_to_python = JStr ''{x:str}'',
      asdict = JStr,
      parse_obj = (\<lambda>j. case j of JStr s \<Rightarrow> Inr s
                   | _ \<Rightarrow> Inl (Exn (OtherException ''ValidationError'') ''not a string'' None))\<rparr>"

definition int_model :: "int AvroModel" where
  "int_model =
     \<lparr>avro_schema = ''{x:int}'',
      avro_schema_to_python = JStr ''{x:int}'',
      asdict = JInt,
      parse_obj = (\<lambda>j. case j of JInt i \<Rightarrow> Inr i
                   | _ \<Rightarrow> Inl (Exn (OtherException ''ValidationError'') ''not an int'' None))\<rparr>"

text \<open>A registry that holds one schema, id 1, registered under one coordinate.\<close>

definition demo_registry :: InMemoryClient where
  "demo_registry =
     \<lparr>schemas = [(1, JStr ''{x:str}'')],
      artifacts = [((''g'', ''a''),
         [\<lparr>version = 1, global_id = 1, schema_content = ''{ x : str }''\<rparr>])],
      schema_to_global_id = [(''{x:str}'', 1)]\<rparr>"


section \<open>Properties that an operation keeps\<close>

text \<open>An operation keeps a property of the state: if it holds before, it holds after.\<close>

definition keeps :: "('s \<Rightarrow> bool) \<Rightarrow> ('s, 'a) action \<Rightarrow> bool" where
  "keeps P m \<longleftrightarrow> (\<forall>s. P s \<longrightarrow> P (snd (m s)))"

text \<open>A property of the serializer that does not look at the client.\<close>

definition ignores_client :: "('c AvroSerializer \<Rightarrow> bool) \<Rightarrow> bool" where
  "ignores_client P \<longleftrightarrow> (\<forall>s c. P (s\<lparr>client := c\<rparr>) = P s)"

section \<open>The HTTP registry client (\<^verbatim>\<open>schema_client.py\<close>)\<close>








text \<open>
  An HTTP response (\<^verbatim>\<open>status_code\<close>, \<^verbatim>\<open>text\<close>) and the transport: \<^verbatim>\<open>client.get\<close>
  with a URL and query parameters, which acts on the world outside (\<open>'w\<close>: network
  and registry server) and may raise, and \<^verbatim>\<open>response.raise_for_status()\<close>, which
  raises \<^verbatim>\<open>HTTPStatusError\<close> for the status codes httpx counts as errors.
\<close>

record response =
  status_code :: int
  response_text :: string

record 'w httpx =
  http_get :: "string \<Rightarrow> (string \<times> json) list \<Rightarrow> ('w, response) action"
  raise_for_status :: "response \<Rightarrow> exn option"

text \<open>
  The state of \<^verbatim>\<open>ApicurioClient\<close>: whether \<^verbatim>\<open>_client\<close> has been created, the
  \<^verbatim>\<open>_schema_cache\<close> dict, and the world its requests act on.
\<close>

record 'w ApicurioClient =
  connected :: bool
  schema_cache :: "json \<rightharpoonup> json"
  net :: 'w

definition ensure_client :: "'w ApicurioClient \<Rightarrow> 'w ApicurioClient" where
  "ensure_client self = (if \<not> connected self then self\<lparr>connected := True\<rparr> else self)"

text \<open>\<^verbatim>\<open>await self._client.get(...)\<close>: the request runs on the world.\<close>

definition http_call :: "('w, 'a) action \<Rightarrow> ('w ApicurioClient, 'a) action" where
  "http_call m self = (case m (net self) of (r, w') \<Rightarrow> (r, self\<lparr>net := w'\<rparr>))"





definition ApicurioClient_check_artifact_exists ::
  "'w httpx \<Rightarrow> string \<Rightarrow> string \<Rightarrow> ('w ApicurioClient, bool) action" where
  "ApicurioClient_check_artifact_exists T group_id artifact_id self =
     (case http_call (http_get T
             (''/apis/registry/v3/groups/'' @ group_id @ ''/artifacts/'' @ artifact_id) [])
             (ensure_client self) of
        (Inr resp, self') \<Rightarrow> (Inr (status_code resp = 200), self')
      | (Inl e, self') \<Rightarrow>
          (case kind e of
             HTTPStatusError code body \<Rightarrow> (Inr False, self')
           | RequestError \<Rightarrow> (Inr False, self')
           | _ \<Rightarrow> (Inl e, self')))"







section \<open>Notions and fixtures for the HTTP client's properties\<close>

text \<open>
  The exceptions that issuing a request raises according to httpx (\<^verbatim>\<open>RequestError\<close>
  is documented as the base class of all exceptions that may occur when issuing a
  request), together with \<^verbatim>\<open>HTTPStatusError\<close>: the two classes the handlers name.
\<close>

definition httpx_error :: "exn \<Rightarrow> bool" where
  "httpx_error e = (case kind e of HTTPStatusError _ _ \<Rightarrow> True | RequestError \<Rightarrow> True | _ \<Rightarrow> False)"

text \<open>
  A registry server for concrete runs. Searching returns three candidates: one without
  an artifact id, one whose latest version is not found (404), and \<^verbatim>\<open>g/c\<close>, whose
  latest version has global id 1 and the schema text \<^verbatim>\<open>{ x : str }\<close>. The artifact
  \<^verbatim>\<open>g/c\<close> exists; a request for \<^verbatim>\<open>g/down\<close> fails in transport; everything else is
  answered 404.
\<close>

definition demo_net :: "unit httpx" where
  "demo_net =
     \<lparr>http_get = (\<lambda>url params w.
        if url = ''/apis/registry/v3/search/artifacts''
        then (Inr \<lparr>status_code = 200, response_text = ''SEARCH''\<rparr>, w)
        else if url = ''/apis/registry/v3/groups/g/artifacts/c/versions/branch=latest''
        then (Inr \<lparr>status_code = 200, response_text = ''META''\<rparr>, w)
        else if url = ''/apis/registry/v3/ids/globalIds/1''
        then (Inr \<lparr>status_code = 200, response_text = ''{ x : str }''\<rparr>, w)
        else if url = ''/apis/registry/v3/groups/g/artifacts/c''
        then (Inr \<lparr>status_code = 200, response_text = ''OK''\<rparr>, w)
        else if url = ''/apis/registry/v3/groups/g/artifacts/down''
        then (Inl (Exn RequestError ''connection refused'' None), w)
        else (Inr \<lparr>status_code = 404, response_text = ''not found''\<rparr>, w)),
      raise_for_status = (\<lambda>r.
        if 200 \<le> status_code r \<and> status_code r < 300 then None
        else Some (Exn (HTTPStatusError (status_code r) (response_text r)) ''status error'' None))\<rparr>"





text \<open>
  A transport that refuses a URL with a line feed in it before any request is sent, as
  httpx does (\<^verbatim>\<open>httpx.InvalidURL\<close>, which is neither a \<^verbatim>\<open>RequestError\<close> nor an
  \<^verbatim>\<open>HTTPStatusError\<close>), and otherwise behaves as the registry server above.
\<close>

definition strict_net :: "unit httpx" where
  "strict_net =
     demo_net\<lparr>http_get := (\<lambda>url params w.
        if CHR 0x0A \<in> set url
        then (Inl (Exn (OtherException ''InvalidURL'')
                ''Invalid non-printable ASCII character in URL'' None), w)
        else http_get demo_net url params w)\<rparr>"

section \<open>Properties of the wire format\<close>

lemma bit_byte_less: "bit (x::byte) n \<Longrightarrow> n < 8"
  using bit_imp_le_length [of x n] by simp

lemma from_be32_plus:
  "from_be32 a b c d =
     push_bit 24 (ucast a) + (push_bit 16 (ucast b) + (push_bit 8 (ucast c) + ucast d))"
proof -
  have lo: "push_bit 8 (ucast c) + (ucast d :: 32 word) = push_bit 8 (ucast c) OR ucast d"
    by (rule disjunctive_add) (auto simp: bit_simps dest: bit_byte_less)
  have mid: "push_bit 16 (ucast b) + (push_bit 8 (ucast c) OR ucast d :: 32 word)
      = push_bit 16 (ucast b) OR (push_bit 8 (ucast c) OR ucast d)"
    by (rule disjunctive_add) (auto simp: bit_simps dest: bit_byte_less)
  have hi: "push_bit 24 (ucast a)
        + (push_bit 16 (ucast b) OR (push_bit 8 (ucast c) OR ucast d) :: 32 word)
      = push_bit 24 (ucast a) OR (push_bit 16 (ucast b) OR (push_bit 8 (ucast c) OR ucast d))"
    by (rule disjunctive_add) (auto simp: bit_simps dest: bit_byte_less)
  show ?thesis unfolding from_be32_def lo mid hi ..
qed

text \<open>The four bytes are read most significant first: the value is the base-256 number.\<close>

lemma uint_from_be32:
  "uint (from_be32 a b c d) = uint a * 2 ^ 24 + uint b * 2 ^ 16 + uint c * 2 ^ 8 + uint d"
proof -
  have a: "uint a < 256" "0 \<le> uint a" using uint_bounded [of a] by simp_all
  have b: "uint b < 256" "0 \<le> uint b" using uint_bounded [of b] by simp_all
  have c: "uint c < 256" "0 \<le> uint c" using uint_bounded [of c] by simp_all
  have d: "uint d < 256" "0 \<le> uint d" using uint_bounded [of d] by simp_all
  have "from_be32 a b c d
      = word_of_int (uint a * 2 ^ 24 + uint b * 2 ^ 16 + uint c * 2 ^ 8 + uint d)"
    unfolding from_be32_plus by (simp add: push_bit_eq_mult)
  then have "uint (from_be32 a b c d)
      = (uint a * 2 ^ 24 + uint b * 2 ^ 16 + uint c * 2 ^ 8 + uint d) mod 2 ^ 32"
    by (simp only: uint_word_of_int) simp
  also have "\<dots> = uint a * 2 ^ 24 + uint b * 2 ^ 16 + uint c * 2 ^ 8 + uint d"
    using a b c d by (intro mod_pos_pos_trivial) auto
  finally show ?thesis .
qed



text \<open>
  C1. For every byte sequence, decode fails with the wire-format error kind when the
  message is shorter than 5 bytes or its first byte is not 0x00. Otherwise it succeeds:
  the schema id is the big-endian unsigned 32-bit number held in bytes 1 to 4 and the
  payload is everything after byte 4, which may be empty. Decoding the five bytes
  00 00 00 00 01 gives schema id 1 and the empty payload.
\<close>

theorem C1_decode_spec:
  "(length msg < 5 \<or> msg ! 0 \<noteq> 0 \<longrightarrow>
      (\<exists>e. ConfluentWireFormat_decode msg = Inl e \<and> kind e = InvalidWireFormatError))
   \<and> (\<not> (length msg < 5 \<or> msg ! 0 \<noteq> 0) \<longrightarrow>
      (\<exists>sid. ConfluentWireFormat_decode msg = Inr (sid, drop 5 msg)
         \<and> uint sid = uint (msg ! 1) * 2 ^ 24 + uint (msg ! 2) * 2 ^ 16
                        + uint (msg ! 3) * 2 ^ 8 + uint (msg ! 4)))
   \<and> ConfluentWireFormat_decode [0, 0, 0, 0, 1] = Inr (1, [])"
proof (intro conjI impI)
  assume "length msg < 5 \<or> msg ! 0 \<noteq> 0"
  then show "\<exists>e. ConfluentWireFormat_decode msg = Inl e \<and> kind e = InvalidWireFormatError"
    by (auto simp: ConfluentWireFormat_decode_def)
next
  assume ok: "\<not> (length msg < 5 \<or> msg ! 0 \<noteq> 0)"
  then have "ConfluentWireFormat_decode msg
      = Inr (from_be32 (msg ! 1) (msg ! 2) (msg ! 3) (msg ! 4), drop 5 msg)"
    by (simp add: ConfluentWireFormat_decode_def)
  then show "\<exists>sid. ConfluentWireFormat_decode msg = Inr (sid, drop 5 msg)
         \<and> uint sid = uint (msg ! 1) * 2 ^ 24 + uint (msg ! 2) * 2 ^ 16
                        + uint (msg ! 3) * 2 ^ 8 + uint (msg ! 4)"
    using uint_from_be32 [of "msg ! 1" "msg ! 2" "msg ! 3" "msg ! 4"] by blast
next
  show "ConfluentWireFormat_decode [0, 0, 0, 0, 1] = Inr (1, [])"
    by (simp add: ConfluentWireFormat_decode_def from_be32_def)
qed

theorem C1_decode_spec_witness:
  "(\<exists>e. ConfluentWireFormat_decode [0, 0, 0, 1] = Inl e \<and> kind e = InvalidWireFormatError)
   \<and> (\<exists>e. ConfluentWireFormat_decode [1, 0, 0, 0, 1] = Inl e
         \<and> kind e = InvalidWireFormatError)
   \<and> (\<exists>sid. ConfluentWireFormat_decode [0, 0, 0, 0x30, 0x39, 7] = Inr (sid, [7])
         \<and> uint sid = 12345)"
  using C1_decode_spec [of "[0, 0, 0, 1]"] C1_decode_spec [of "[1, 0, 0, 0, 1]"]
    C1_decode_spec [of "[0, 0, 0, 0x30, 0x39, 7]"]
  by simp

section \<open>Idempotent registration in the in-memory registry\<close>

lemma versions_of_append_version:
  "versions_of (append_version key gid c s) k =
     (if k = key then versions_of s key
        @ [\<lparr>version = int (length (versions_of s key)) + 1, global_id = gid, schema_content = c\<rparr>]
      else versions_of s k)"
  by (simp add: versions_of_def append_version_def Let_def update_conv')

lemma append_version_fields [simp]:
  "schemas (append_version key gid c s) = schemas s"
  "schema_to_global_id (append_version key gid c s) = schema_to_global_id s"
  by (simp_all add: append_version_def Let_def)

lemma has_version_iff:
  "has_version_with_id s key gid \<longleftrightarrow> (\<exists>v \<in> set (versions_of s key). global_id v = gid)"
  by (auto simp: has_version_with_id_def versions_of_def list_ex_iff split: option.splits)

lemma next_id_fresh: "get_next_global_id s \<notin> fst ` set (schemas s)"
proof
  assume m: "get_next_global_id s \<in> fst ` set (schemas s)"
  then have ne: "schemas s \<noteq> []" by auto
  have "get_next_global_id s \<le> Max (set (map fst (schemas s)))"
    using m by (intro Max_ge) auto
  then show False using ne by (simp add: get_next_global_id_def)
qed

lemma inv_init: "registry_inv L InMemoryClient_init"
  by (simp add: registry_inv_def InMemoryClient_init_def versions_of_def)

lemma inv_append:
  assumes "registry_inv L s" "normalize_schema L c = Inr n"
    "map_of (schema_to_global_id s) n = Some gid"
  shows "registry_inv L (append_version key gid c s)"
  using assms unfolding registry_inv_def
  by (auto simp: versions_of_append_version split: if_splits)

lemma inv_store:
  assumes inv: "registry_inv L s" and n: "normalize_schema L c = Inr n"
    and new: "map_of (schema_to_global_id s) n = None"
    and st: "store_new_schema L key n c s = (r, s')"
  shows "registry_inv L s'"
proof (cases "json_loads L c")
  case (Inl e)
  then show ?thesis using st inv by (simp add: store_new_schema_def Let_def)
next
  case (Inr d)
  let ?g = "get_next_global_id s"
  let ?s1 = "s\<lparr>schemas := AList.update ?g d (schemas s),
       schema_to_global_id := AList.update n ?g (schema_to_global_id s)\<rparr>"
  have s': "s' = append_version key ?g c ?s1"
    using st Inr by (simp add: store_new_schema_def Let_def)
  have fresh: "\<And>m. map_of (schema_to_global_id s) m \<noteq> Some ?g"
    using inv next_id_fresh [of s] unfolding registry_inv_def by auto
  have vs1: "\<And>k. versions_of ?s1 k = versions_of s k" by (simp add: versions_of_def)
  have m1: "\<And>m. map_of (schema_to_global_id ?s1) m
      = (if m = n then Some ?g else map_of (schema_to_global_id s) m)"
    by (simp add: update_conv')
  have d1: "fst ` set (schemas ?s1) = insert ?g (fst ` set (schemas s))"
    by (simp add: dom_update)
  have inv1: "registry_inv L ?s1"
    unfolding registry_inv_def vs1 m1 d1
  proof (intro conjI allI impI)
    fix key v assume "v \<in> set (versions_of s key)"
    then obtain k where k: "normalize_schema L (schema_content v) = Inr k"
      "map_of (schema_to_global_id s) k = Some (global_id v)"
      using inv unfolding registry_inv_def by blast
    with new have "k \<noteq> n" by auto
    with k show "\<exists>n'. normalize_schema L (schema_content v) = Inr n'
        \<and> (if n' = n then Some ?g else map_of (schema_to_global_id s) n') = Some (global_id v)"
      by auto
  next
    fix m i assume "(if m = n then Some ?g else map_of (schema_to_global_id s) m) = Some i"
    then show "i \<in> insert ?g (fst ` set (schemas s))"
      using inv unfolding registry_inv_def by (auto split: if_splits)
  next
    fix n1 n2 i
    assume "(if n1 = n then Some ?g else map_of (schema_to_global_id s) n1) = Some i"
      "(if n2 = n then Some ?g else map_of (schema_to_global_id s) n2) = Some i"
    then show "n1 = n2"
      using inv fresh unfolding registry_inv_def by (auto split: if_splits)
  qed
  have "map_of (schema_to_global_id ?s1) n = Some ?g" by (simp add: update_conv')
  from inv_append [OF inv1 n this] show ?thesis unfolding s' .
qed

lemma inv_register:
  assumes "registry_inv L s"
  shows "registry_inv L (snd (InMemoryClient_register_schema L g a c s))"
  using assms
  by (auto simp: InMemoryClient_register_schema_def inv_append
      split: sum.splits option.splits intro: inv_store [OF _ _ _ surjective_pairing])

lemma inv_register_version:
  assumes "registry_inv L s"
  shows "registry_inv L (snd (InMemoryClient_register_schema_version L g a c s))"
  using assms
  by (auto simp: InMemoryClient_register_schema_version_def inv_append
      split: sum.splits option.splits intro: inv_store [OF _ _ _ surjective_pairing])

lemma reachable_inv: "reachable L s \<Longrightarrow> registry_inv L s"
  by (induction rule: reachable.induct) (auto intro: inv_init inv_register inv_register_version)

lemma register_hit:
  assumes "normalize_schema L c = Inr n" "map_of (schema_to_global_id s) n = Some i"
    "has_version_with_id s (g, a) i"
  shows "InMemoryClient_register_schema L g a c s = (Inr i, s)"
    and "InMemoryClient_register_schema_version L g a c s = (Inr i, s)"
  using assms
  by (auto simp: InMemoryClient_register_schema_def InMemoryClient_register_schema_version_def
      has_version_with_id_def split: option.splits)

lemma register_other:
  assumes "normalize_schema L c = Inr n" "map_of (schema_to_global_id s) n = Some i"
    "\<not> has_version_with_id s (g, a) i"
  shows "InMemoryClient_register_schema L g a c s = (Inr i, append_version (g, a) i c s)"
    and "map_of (artifacts s) (g, a) \<noteq> None \<Longrightarrow>
      InMemoryClient_register_schema_version L g a c s = (Inr i, append_version (g, a) i c s)"
  using assms
  by (auto simp: InMemoryClient_register_schema_def InMemoryClient_register_schema_version_def)

lemma same_canonicalD:
  "same_canonical L c1 c2 \<Longrightarrow>
     \<exists>n. normalize_schema L c1 = Inr n \<and> normalize_schema L c2 = Inr n"
  by (auto simp: same_canonical_def split: sum.splits)

lemma same_canonicalI:
  "normalize_schema L c1 = Inr n \<Longrightarrow> normalize_schema L c2 = Inr n \<Longrightarrow> same_canonical L c1 c2"
  by (simp add: same_canonical_def)

lemma store_new_post:
  assumes "store_new_schema L key n c s = (Inr i, s1)"
  shows "map_of (schema_to_global_id s1) n = Some i \<and> has_version_with_id s1 key i"
  using assms
  by (auto simp: store_new_schema_def Let_def has_version_iff versions_of_append_version
      update_conv' split: sum.splits)

lemma register_post:
  assumes "InMemoryClient_register_schema L g a c s = (Inr i, s1)"
  shows "\<exists>n. normalize_schema L c = Inr n \<and> map_of (schema_to_global_id s1) n = Some i
    \<and> has_version_with_id s1 (g, a) i"
proof (cases "normalize_schema L c")
  case (Inl e)
  then show ?thesis using assms by (simp add: InMemoryClient_register_schema_def)
next
  case (Inr n)
  show ?thesis
  proof (cases "map_of (schema_to_global_id s) n")
    case None
    then have "store_new_schema L (g, a) n c s = (Inr i, s1)"
      using assms Inr by (simp add: InMemoryClient_register_schema_def)
    from store_new_post [OF this] Inr show ?thesis by simp
  next
    case (Some j)
    then show ?thesis using assms Inr
      by (auto simp: InMemoryClient_register_schema_def has_version_iff
          versions_of_append_version split: if_splits)
  qed
qed

lemma inv_version:
  assumes "registry_inv L s" "v \<in> set (versions_of s key)"
    "normalize_schema L (schema_content v) = Inr n"
  shows "map_of (schema_to_global_id s) n = Some (global_id v)"
proof -
  from assms(1,2) obtain k where "normalize_schema L (schema_content v) = Inr k"
    "map_of (schema_to_global_id s) k = Some (global_id v)"
    unfolding registry_inv_def by blast
  with assms(3) show ?thesis by simp
qed

lemma inv_inj:
  assumes "registry_inv L s" "map_of (schema_to_global_id s) n1 = Some i"
    "map_of (schema_to_global_id s) n2 = Some i"
  shows "n1 = n2"
  using assms unfolding registry_inv_def by blast

text \<open>
  C8. In every registry state that registration can produce: registering a text that is
  canonically identical to a version already stored under the same coordinate returns
  that version's global id and changes nothing (both for \<^verbatim>\<open>register_schema\<close> and for
  \<^verbatim>\<open>register_schema_version\<close>); registering a text that is canonically identical to a
  version stored under another coordinate, and to none under this one, returns the
  existing global id and appends one version with that id to this coordinate, leaving
  the stored schemas and the content index as they were; and a second identical call
  right after a successful one returns the same id and changes nothing.
\<close>

theorem C8_register_idempotent:
  assumes "reachable L s"
  shows "(v \<in> set (versions_of s (g, a)) \<and> same_canonical L c (schema_content v) \<longrightarrow>
            InMemoryClient_register_schema L g a c s = (Inr (global_id v), s)
          \<and> InMemoryClient_register_schema_version L g a c s = (Inr (global_id v), s))
       \<and> (v \<in> set (versions_of s other) \<and> same_canonical L c (schema_content v)
            \<and> (\<forall>u \<in> set (versions_of s (g, a)). \<not> same_canonical L c (schema_content u)) \<longrightarrow>
            InMemoryClient_register_schema L g a c s
              = (Inr (global_id v), append_version (g, a) (global_id v) c s)
          \<and> (map_of (artifacts s) (g, a) \<noteq> None \<longrightarrow>
               InMemoryClient_register_schema_version L g a c s
                 = (Inr (global_id v), append_version (g, a) (global_id v) c s))
          \<and> schemas (append_version (g, a) (global_id v) c s) = schemas s
          \<and> schema_to_global_id (append_version (g, a) (global_id v) c s)
              = schema_to_global_id s
          \<and> versions_of (append_version (g, a) (global_id v) c s) (g, a)
              = versions_of s (g, a)
                @ [\<lparr>version = int (length (versions_of s (g, a))) + 1,
                    global_id = global_id v, schema_content = c\<rparr>])
       \<and> (InMemoryClient_register_schema L g a c s = (Inr i, s1) \<longrightarrow>
            InMemoryClient_register_schema L g a c s1 = (Inr i, s1))"
proof (intro conjI impI)
  note inv = reachable_inv [OF assms]
  {
    assume h: "v \<in> set (versions_of s (g, a)) \<and> same_canonical L c (schema_content v)"
    then obtain n where n: "normalize_schema L c = Inr n"
      "normalize_schema L (schema_content v) = Inr n"
      using same_canonicalD by blast
    have m: "map_of (schema_to_global_id s) n = Some (global_id v)"
      using inv_version [OF inv _ n(2)] h by blast
    have hv: "has_version_with_id s (g, a) (global_id v)"
      using h by (auto simp: has_version_iff)
    show "InMemoryClient_register_schema L g a c s = (Inr (global_id v), s)"
      by (rule register_hit(1) [OF n(1) m hv])
    show "InMemoryClient_register_schema_version L g a c s = (Inr (global_id v), s)"
      by (rule register_hit(2) [OF n(1) m hv])
  }
  {
    assume h: "v \<in> set (versions_of s other) \<and> same_canonical L c (schema_content v)
            \<and> (\<forall>u \<in> set (versions_of s (g, a)). \<not> same_canonical L c (schema_content u))"
    then obtain n where n: "normalize_schema L c = Inr n"
      "normalize_schema L (schema_content v) = Inr n"
      using same_canonicalD by blast
    have m: "map_of (schema_to_global_id s) n = Some (global_id v)"
      using inv_version [OF inv _ n(2)] h by blast
    have nv: "\<not> has_version_with_id s (g, a) (global_id v)"
    proof
      assume "has_version_with_id s (g, a) (global_id v)"
      then obtain u where u: "u \<in> set (versions_of s (g, a))" "global_id u = global_id v"
        by (auto simp: has_version_iff)
      from inv u(1) obtain k where k: "normalize_schema L (schema_content u) = Inr k"
        unfolding registry_inv_def by blast
      have "map_of (schema_to_global_id s) k = Some (global_id v)"
        using inv_version [OF inv u(1) k] u(2) by simp
      from inv_inj [OF inv this m] k have "normalize_schema L (schema_content u) = Inr n"
        by simp
      from same_canonicalI [OF n(1) this] h u(1) show False by blast
    qed
    show "InMemoryClient_register_schema L g a c s
              = (Inr (global_id v), append_version (g, a) (global_id v) c s)"
      by (rule register_other(1) [OF n(1) m nv])
    show "InMemoryClient_register_schema_version L g a c s
                 = (Inr (global_id v), append_version (g, a) (global_id v) c s)"
      if "map_of (artifacts s) (g, a) \<noteq> None"
      by (rule register_other(2) [OF n(1) m nv that])
  }
  show "schemas (append_version (g, a) (global_id v) c s) = schemas s" by simp
  show "schema_to_global_id (append_version (g, a) (global_id v) c s) = schema_to_global_id s"
    by simp
  show "versions_of (append_version (g, a) (global_id v) c s) (g, a)
              = versions_of s (g, a)
                @ [\<lparr>version = int (length (versions_of s (g, a))) + 1,
                    global_id = global_id v, schema_content = c\<rparr>]"
    by (simp add: versions_of_append_version)
  {
    assume "InMemoryClient_register_schema L g a c s = (Inr i, s1)"
    from register_post [OF this] obtain n where
      "normalize_schema L c = Inr n" "map_of (schema_to_global_id s1) n = Some i"
      "has_version_with_id s1 (g, a) i" by blast
    then show "InMemoryClient_register_schema L g a c s1 = (Inr i, s1)"
      by (rule register_hit(1))
  }
qed

theorem C8_register_idempotent_witness:
  "InMemoryClient_register_schema demo_lib ''g'' ''a'' ''{x:int}''
       \<lparr>schemas = [(1, JStr ''{x:int}'')],
        artifacts = [((''g'', ''a''),
            [\<lparr>version = 1, global_id = 1, schema_content = ''{ x : int }''\<rparr>])],
        schema_to_global_id = [(''{x:int}'', 1)]\<rparr>
     = (Inr 1,
        \<lparr>schemas = [(1, JStr ''{x:int}'')],
         artifacts = [((''g'', ''a''),
            [\<lparr>version = 1, global_id = 1, schema_content = ''{ x : int }''\<rparr>])],
         schema_to_global_id = [(''{x:int}'', 1)]\<rparr>)
   \<and> InMemoryClient_register_schema demo_lib ''g'' ''b'' ''{x:int}''
       \<lparr>schemas = [(1, JStr ''{x:int}'')],
        artifacts = [((''g'', ''a''),
            [\<lparr>version = 1, global_id = 1, schema_content = ''{ x : int }''\<rparr>])],
        schema_to_global_id = [(''{x:int}'', 1)]\<rparr>
     = (Inr 1,
        \<lparr>schemas = [(1, JStr ''{x:int}'')],
         artifacts = [((''g'', ''a''),
            [\<lparr>version = 1, global_id = 1, schema_content = ''{ x : int }''\<rparr>]),
           ((''g'', ''b''),
            [\<lparr>version = 1, global_id = 1, schema_content = ''{x:int}''\<rparr>])],
         schema_to_global_id = [(''{x:int}'', 1)]\<rparr>)"
proof -
  let ?s = "\<lparr>schemas = [(1, JStr ''{x:int}'')],
        artifacts = [((''g'', ''a''),
            [\<lparr>version = 1, global_id = 1, schema_content = ''{ x : int }''\<rparr>])],
        schema_to_global_id = [(''{x:int}'', 1)]\<rparr>"
  let ?v = "\<lparr>version = 1, global_id = 1, schema_content = ''{ x : int }''\<rparr>"
  have s: "snd (InMemoryClient_register_schema demo_lib ''g'' ''a'' ''{ x : int }''
      InMemoryClient_init) = ?s"
    by (simp add: InMemoryClient_register_schema_def normalize_schema_def demo_lib_def
        InMemoryClient_init_def store_new_schema_def get_next_global_id_def
        append_version_def)
  have r: "reachable demo_lib ?s"
    using reachable_register [OF reachable_init, of demo_lib "''g''" "''a''" "''{ x : int }''"]
    unfolding s .
  have v: "?v \<in> set (versions_of ?s (''g'', ''a''))" by (simp add: versions_of_def)
  have c: "same_canonical demo_lib ''{x:int}'' (schema_content ?v)"
    by (simp add: same_canonical_def normalize_schema_def demo_lib_def)
  have n: "\<forall>u \<in> set (versions_of ?s (''g'', ''b'')). \<not> same_canonical demo_lib ''{x:int}'' (schema_content u)"
    by (simp add: versions_of_def)
  show ?thesis
    using C8_register_idempotent [OF r, where v = ?v and g = "''g''" and a = "''a''"
        and c = "''{x:int}''" and other = "(''g'', ''a'')"]
      C8_register_idempotent [OF r, where v = ?v and g = "''g''" and a = "''b''"
        and c = "''{x:int}''" and other = "(''g'', ''a'')"]
      v c n
    by (simp add: append_version_def)
qed

section \<open>Error handling and automatic lookup of the serializer\<close>

lemmas monad_defs = bindS_def call_client_def liftE_def returnS_def raiseS_def try_except_def

lemma get_parsed_schema_client:
  "client (snd (AvroSerializer_get_parsed_schema L sid rs self)) = client self"
  by (simp add: AvroSerializer_get_parsed_schema_def Let_def split: option.splits sum.splits)

text \<open>
  C4. When the schema of the id was fetched and its parsed form obtained, and the codec
  cannot write the value's dict against that schema, \<^verbatim>\<open>_serialize_with_schema_id\<close>
  raises \<^verbatim>\<open>SchemaMismatchError\<close> (with the codec's failure as its context and in its
  message), and \<^verbatim>\<open>serialize\<close> with that explicit id raises exactly this exception, not a
  \<^verbatim>\<open>SerializationError\<close>. On either path of \<^verbatim>\<open>serialize\<close>, a \<^verbatim>\<open>SchemaMismatchError\<close>
  raised inside the \<^verbatim>\<open>try\<close> block leaves \<^verbatim>\<open>serialize\<close> unchanged.
\<close>

theorem C4_mismatch_unwrapped:
  assumes fetch: "get_schema_by_global_id ops sid (client self) = (Inr registry_schema, c')"
    and parse: "AvroSerializer_get_parsed_schema L sid registry_schema (self\<lparr>client := c'\<rparr>)
                  = (Inr parsed_schema, self')"
    and bad: "schemaless_writer L parsed_schema (asdict cls obj) = Inl e"
  shows "AvroSerializer_serialize_with_schema_id L ops cls obj sid self
           = (Inl (Exn SchemaMismatchError (''Data does not match schema: '' @ message e) (Some e)),
              self')
       \<and> AvroSerializer_serialize L ops cls obj (Some sid) self
           = (Inl (Exn SchemaMismatchError (''Data does not match schema: '' @ message e) (Some e)),
              self')
       \<and> (\<forall>schema_id err s s'.
             serialize_try L ops cls obj schema_id s = (Inl err, s')
             \<and> kind err = SchemaMismatchError
             \<longrightarrow> AvroSerializer_serialize L ops cls obj schema_id s = (Inl err, s'))"
  using assms
  by (simp add: AvroSerializer_serialize_def serialize_try_def serialize_except_def
      AvroSerializer_serialize_with_schema_id_def
      AvroSerializer_validate_data_against_schema_def monad_defs)

theorem C4_mismatch_unwrapped_witness:
  "AvroSerializer_serialize demo_lib (mock_ops None None (1, JNull) (JStr ''{x:str}''))
       int_model 5 (Some 1) (AvroSerializer_init () True)
     = (Inl (Exn SchemaMismatchError ''Data does not match schema: not a string''
              (Some (Exn (OtherException ''ValueError'') ''not a string'' None))),
        \<lparr>client = (), cache_schemas = True,
         parsed_schema_cache = [1 \<mapsto> JStr ''{x:str}'']\<rparr>)"
proof -
  let ?ops = "mock_ops None None (1, JNull) (JStr ''{x:str}'')"
  let ?self = "AvroSerializer_init () True"
  have fetch: "get_schema_by_global_id ?ops 1 (client ?self) = (Inr (JStr ''{x:str}''), ())"
    by (simp add: mock_ops_def returnS_def)
  have parse: "AvroSerializer_get_parsed_schema demo_lib 1 (JStr ''{x:str}'')
        (?self\<lparr>client := ()\<rparr>)
      = (Inr (JStr ''{x:str}''),
         \<lparr>client = (), cache_schemas = True, parsed_schema_cache = [1 \<mapsto> JStr ''{x:str}'']\<rparr>)"
    by (simp add: AvroSerializer_get_parsed_schema_def AvroSerializer_init_def demo_lib_def
        Let_def)
  have bad: "schemaless_writer demo_lib (JStr ''{x:str}'') (asdict int_model 5)
      = Inl (Exn (OtherException ''ValueError'') ''not a string'' None)"
    by (simp add: demo_lib_def int_model_def)
  from C4_mismatch_unwrapped [OF fetch parse bad] show ?thesis by simp
qed

text \<open>
  C5. With an explicit schema id: a failure of the serialization steps that is not a
  \<^verbatim>\<open>SerializationError\<close>, \<^verbatim>\<open>SchemaMismatchError\<close> or \<^verbatim>\<open>SchemaMatchError\<close> leaves
  \<^verbatim>\<open>serialize\<close> as one \<^verbatim>\<open>SerializationError\<close> whose message names the schema id and
  ends with the failure's text, and whose context is the failure itself; a failure of
  one of the three classes leaves \<^verbatim>\<open>serialize\<close> as it is. In particular a failure of
  the client's fetch (schema not found, transport error) and a failure to frame the
  payload are wrapped this way.
\<close>

theorem C5_explicit_id_wrapping:
  "(AvroSerializer_serialize_with_schema_id L ops cls obj sid self = (Inl e, self')
      \<and> \<not> passes_unwrapped e \<longrightarrow>
      AvroSerializer_serialize L ops cls obj (Some sid) self
        = (Inl (Exn SerializationError
                  (''Failed to serialize object with schema ID '' @ str_int sid @ '': ''
                   @ message e) (Some e)), self'))
   \<and> (AvroSerializer_serialize_with_schema_id L ops cls obj sid self = (Inl e, self')
      \<and> passes_unwrapped e \<longrightarrow>
      AvroSerializer_serialize L ops cls obj (Some sid) self = (Inl e, self'))
   \<and> (AvroSerializer_serialize_with_schema_id L ops cls obj sid self = (Inr b, self') \<longrightarrow>
      AvroSerializer_serialize L ops cls obj (Some sid) self = (Inr b, self'))
   \<and> (get_schema_by_global_id ops sid (client self) = (Inl e, c')
      \<and> \<not> passes_unwrapped e \<longrightarrow>
      AvroSerializer_serialize L ops cls obj (Some sid) self
        = (Inl (Exn SerializationError
                  (''Failed to serialize object with schema ID '' @ str_int sid @ '': ''
                   @ message e) (Some e)), self\<lparr>client := c'\<rparr>))
   \<and> (get_schema_by_global_id ops sid (client self) = (Inr registry_schema, c')
      \<and> AvroSerializer_get_parsed_schema L sid registry_schema (self\<lparr>client := c'\<rparr>)
           = (Inr parsed_schema, self')
      \<and> schemaless_writer L parsed_schema (asdict cls obj) = Inr payload
      \<and> encode_call sid payload = Inl e \<longrightarrow>
      AvroSerializer_serialize L ops cls obj (Some sid) self
        = (Inl (Exn SerializationError
                  (''Failed to serialize object with schema ID '' @ str_int sid @ '': ''
                   @ message e) (Some e)), self'))"
proof (intro conjI impI)
  assume "get_schema_by_global_id ops sid (client self) = (Inr registry_schema, c')
      \<and> AvroSerializer_get_parsed_schema L sid registry_schema (self\<lparr>client := c'\<rparr>)
           = (Inr parsed_schema, self')
      \<and> schemaless_writer L parsed_schema (asdict cls obj) = Inr payload
      \<and> encode_call sid payload = Inl e"
  moreover from this have "\<not> passes_unwrapped e"
    by (auto simp: encode_call_def passes_unwrapped_def split: if_splits)
  ultimately show "AvroSerializer_serialize L ops cls obj (Some sid) self
        = (Inl (Exn SerializationError
                  (''Failed to serialize object with schema ID '' @ str_int sid @ '': ''
                   @ message e) (Some e)), self')"
    by (simp add: AvroSerializer_serialize_def serialize_try_def serialize_except_def
      passes_unwrapped_def AvroSerializer_serialize_with_schema_id_def
      AvroSerializer_validate_data_against_schema_def monad_defs)
qed (simp_all add: AvroSerializer_serialize_def serialize_try_def serialize_except_def
      passes_unwrapped_def AvroSerializer_serialize_with_schema_id_def
      AvroSerializer_validate_data_against_schema_def monad_defs)

theorem C5_explicit_id_wrapping_witness:
  "AvroSerializer_serialize demo_lib (InMemoryClient_ops demo_lib) text_model ''hello''
       (Some 7) (AvroSerializer_init InMemoryClient_init True)
     = (Inl (Exn SerializationError
              ''Failed to serialize object with schema ID 7: Schema with global ID 7 not found''
              (Some (Exn SchemaNotFoundError ''Schema with global ID 7 not found'' None))),
        AvroSerializer_init InMemoryClient_init True)"
proof -
  let ?self = "AvroSerializer_init InMemoryClient_init True"
  have s7: "str_int 7 = ''7''" by code_simp
  have fetch: "get_schema_by_global_id (InMemoryClient_ops demo_lib) 7 (client ?self)
      = (Inl (Exn SchemaNotFoundError ''Schema with global ID 7 not found'' None),
         InMemoryClient_init)"
    by (simp add: InMemoryClient_ops_def InMemoryClient_get_schema_by_global_id_def
        InMemoryClient_init_def AvroSerializer_init_def s7)
  have np: "\<not> passes_unwrapped (Exn SchemaNotFoundError ''Schema with global ID 7 not found'' None)"
    by (simp add: passes_unwrapped_def)
  from C5_explicit_id_wrapping [where ops = "InMemoryClient_ops demo_lib" and sid = 7
      and self = ?self and c' = InMemoryClient_init
      and e = "Exn SchemaNotFoundError ''Schema with global ID 7 not found'' None"
      and L = demo_lib and cls = text_model and obj = "''hello''"] fetch np
  show ?thesis by (simp add: s7 AvroSerializer_init_def)
qed

lemma recording_simps:
  "get_schema_by_global_id (recording ops) i
     = record_call (CallGetSchemaByGlobalId i) (get_schema_by_global_id ops i)"
  "get_latest_schema (recording ops) g a
     = record_call (CallGetLatestSchema g a) (get_latest_schema ops g a)"
  "find_artifact_by_content (recording ops) sc
     = record_call (CallFindArtifactByContent sc) (find_artifact_by_content ops sc)"
  "find_artifact_by_fingerprint (recording ops) sc
     = record_call (CallFindArtifactByFingerprint sc) (find_artifact_by_fingerprint ops sc)"
  by (simp_all add: recording_def)

lemma call_client_recorded:
  "call_client (record_call ev m) self =
     (case m (fst (client self)) of
        (r, c') \<Rightarrow> (r, self\<lparr>client := (c', snd (client self) @ [ev])\<rparr>))"
  by (simp add: call_client_def record_call_def split: prod.splits)

lemma recorded_with_schema_id:
  "snd (client (snd (AvroSerializer_serialize_with_schema_id L (recording ops) cls obj sid self)))
     = snd (client self) @ [CallGetSchemaByGlobalId sid]"
proof (cases "get_schema_by_global_id ops sid (fst (client self))")
  case (Pair r c')
  show ?thesis
  proof (cases r)
    case (Inl e)
    with Pair show ?thesis
      by (simp add: AvroSerializer_serialize_with_schema_id_def bindS_def recording_simps
          call_client_recorded)
  next
    case (Inr rs)
    let ?s1 = "self\<lparr>client := (c', snd (client self) @ [CallGetSchemaByGlobalId sid])\<rparr>"
    obtain r2 s2 where p: "AvroSerializer_get_parsed_schema L sid rs ?s1 = (r2, s2)"
      by (cases "AvroSerializer_get_parsed_schema L sid rs ?s1")
    with get_parsed_schema_client [of L sid rs ?s1] have "client s2 = client ?s1" by simp
    with Pair Inr p show ?thesis
      by (simp add: AvroSerializer_serialize_with_schema_id_def bindS_def liftE_def
          recording_simps call_client_recorded split: sum.splits)
  qed
qed

lemma snd_try_except_raise: "snd (try_except m (\<lambda>e. raiseS (f e)) s) = snd (m s)"
  by (simp add: try_except_def raiseS_def split: prod.splits sum.splits)

lemma recorded_resolve:
  "snd (client (snd (bindS (call_client (get_latest_schema (recording ops) g a))
        (\<lambda>(found_schema_id, _).
           AvroSerializer_serialize_with_schema_id L (recording ops) cls obj found_schema_id)
        self)))
     = snd (client self) @ resolve_calls ops g a (fst (client self))"
proof (cases "get_latest_schema ops g a (fst (client self))")
  case (Pair r c')
  show ?thesis
  proof (cases r)
    case (Inl e)
    with Pair show ?thesis
      by (simp add: bindS_def recording_simps call_client_recorded resolve_calls_def)
  next
    case (Inr p)
    obtain sid sch where p: "p = (sid, sch)" by (cases p)
    show ?thesis using Pair Inr p
      by (simp add: bindS_def recording_simps call_client_recorded resolve_calls_def
          recorded_with_schema_id)
  qed
qed

lemma bindS_Inr: "m s = (Inr x, s') \<Longrightarrow> bindS m f s = f x s'"
  by (simp add: bindS_def)

lemma bindS_Inl: "m s = (Inl e, s') \<Longrightarrow> bindS m f s = (Inl e, s')"
  by (simp add: bindS_def)

lemma bindS_returnS: "bindS (returnS x) f = f x"
  by (rule ext) (simp add: bindS_def returnS_def)

lemma call_recorded:
  assumes "client self = (c0, calls0)" "m c0 = (r, c1)"
  shows "call_client (record_call ev m) self = (r, self\<lparr>client := (c1, calls0 @ [ev])\<rparr>)"
  using assms by (simp add: call_client_recorded)

lemma recorded_lookup:
  assumes start: "client self = (c0, calls0)"
  shows "snd (client (snd (serialize_try L (recording ops) cls obj None self)))
     = calls0 @ automatic_lookup_calls ops (avro_schema cls) c0"
proof (cases "find_artifact_by_content ops (avro_schema cls) c0")
  case (Pair r c1)
  let ?sc = "avro_schema cls"
  let ?s1 = "self\<lparr>client := (c1, calls0 @ [CallFindArtifactByContent ?sc])\<rparr>"
  have step1: "call_client (find_artifact_by_content (recording ops) ?sc) self = (r, ?s1)"
    unfolding recording_simps
    by (rule call_recorded [where m = "find_artifact_by_content ops ?sc", OF start Pair])
  show ?thesis
  proof (cases r)
    case (Inl e)
    have "serialize_try L (recording ops) cls obj None self = (Inl e, ?s1)"
      using step1 Inl by (simp add: serialize_try_def bindS_Inl)
    then show ?thesis using Pair Inl by (simp add: automatic_lookup_calls_def)
  next
    case (Inr m)
    show ?thesis
    proof (cases m)
      case (Some ga)
      obtain g a where ga: "ga = (g, a)" by (cases ga)
      have "serialize_try L (recording ops) cls obj None self
          = bindS (call_client (get_latest_schema (recording ops) g a))
              (\<lambda>(found_schema_id, _).
                 AvroSerializer_serialize_with_schema_id L (recording ops) cls obj
                   found_schema_id) ?s1"
        using step1 Inr Some ga by (simp add: serialize_try_def bindS_Inr bindS_returnS)
      then show ?thesis using Pair Inr Some ga
        by (simp add: recorded_resolve automatic_lookup_calls_def)
    next
      case None
      obtain r2 c2 where f: "find_artifact_by_fingerprint ops ?sc c1 = (r2, c2)"
        by (cases "find_artifact_by_fingerprint ops ?sc c1")
      let ?s2 = "self\<lparr>client := (c2, calls0 @ [CallFindArtifactByContent ?sc,
          CallFindArtifactByFingerprint ?sc])\<rparr>"
      have step2: "call_client (find_artifact_by_fingerprint (recording ops) ?sc) ?s1 = (r2, ?s2)"
        unfolding recording_simps
        using call_recorded [where m = "find_artifact_by_fingerprint ops ?sc" and self = ?s1,
            OF _ f]
        by simp
      show ?thesis
      proof (cases r2)
        case (Inl e)
        have "serialize_try L (recording ops) cls obj None self = (Inl e, ?s2)"
          using step1 step2 Inl \<open>r = Inr m\<close> None
          by (simp add: serialize_try_def bindS_Inr bindS_Inl)
        then show ?thesis using Pair f Inl \<open>r = Inr m\<close> None
          by (simp add: automatic_lookup_calls_def)
      next
        case (Inr m2)
        note r2 = this
        show ?thesis
        proof (cases m2)
          case None
          have "snd (serialize_try L (recording ops) cls obj None self) = ?s2"
            using step1 step2 r2 \<open>r = Inr m\<close> \<open>m = None\<close> None
            by (simp add: serialize_try_def bindS_Inr raiseS_def)
          then show ?thesis using Pair f r2 \<open>r = Inr m\<close> \<open>m = None\<close> None
            by (simp add: automatic_lookup_calls_def)
        next
          case (Some ga)
          obtain g a where ga: "ga = (g, a)" by (cases ga)
          have "serialize_try L (recording ops) cls obj None self
              = bindS (call_client (get_latest_schema (recording ops) g a))
                  (\<lambda>(found_schema_id, _).
                     AvroSerializer_serialize_with_schema_id L (recording ops) cls obj
                       found_schema_id) ?s2"
            using step1 step2 r2 \<open>r = Inr m\<close> \<open>m = None\<close> Some ga
            by (simp add: serialize_try_def bindS_Inr)
          then show ?thesis using Pair f r2 \<open>r = Inr m\<close> \<open>m = None\<close> Some ga
            by (simp add: recorded_resolve automatic_lookup_calls_def)
        qed
      qed
    qed
  qed
qed

lemma lookup_calls_shape:
  "(\<exists>rest. automatic_lookup_calls ops sc c0 = CallFindArtifactByContent sc # rest)
   \<and> (CallFindArtifactByFingerprint x \<in> set (automatic_lookup_calls ops sc c0)
        \<longrightarrow> fst (find_artifact_by_content ops sc c0) = Inr None)
   \<and> CallRegisterSchema g a s t \<notin> set (automatic_lookup_calls ops sc c0)"
proof -
  have no_fp: "CallFindArtifactByFingerprint x \<notin> set (resolve_calls ops g' a' c)"
    and no_reg: "CallRegisterSchema g a s t \<notin> set (resolve_calls ops g' a' c)" for g' a' c
    by (simp_all add: resolve_calls_def split: prod.splits sum.splits)
  obtain r c1 where content: "find_artifact_by_content ops sc c0 = (r, c1)"
    by (cases "find_artifact_by_content ops sc c0")
  obtain r2 c2 where fp: "find_artifact_by_fingerprint ops sc c1 = (r2, c2)"
    by (cases "find_artifact_by_fingerprint ops sc c1")
  show ?thesis
  proof (cases r)
    case (Inl e)
    with content show ?thesis by (simp add: automatic_lookup_calls_def)
  next
    case (Inr m)
    show ?thesis
    proof (cases m)
      case (Some ga)
      with content Inr no_fp no_reg show ?thesis
        by (cases ga) (simp add: automatic_lookup_calls_def)
    next
      case None
      show ?thesis
      proof (cases r2)
        case (Inl e)
        with content fp \<open>r = Inr m\<close> None show ?thesis
          by (simp add: automatic_lookup_calls_def)
      next
        case (Inr m2)
        with content fp \<open>r = Inr m\<close> None no_fp no_reg show ?thesis
          by (cases m2) (auto simp: automatic_lookup_calls_def)
      qed
    qed
  qed
qed

text \<open>
  C3. \<^verbatim>\<open>serialize\<close> without a schema id, run on a client that records its calls: the
  calls made are exactly those of the specified lookup, computed from the value's own
  schema text. So the first call is the content search; a fingerprint search is only
  made when the content search returned no coordinate; no registration call is made.
  If both searches return no coordinate, the result is \<^verbatim>\<open>SchemaMatchError\<close> itself (no
  context, not wrapped) after exactly these two calls. If either search returns a
  coordinate and \<^verbatim>\<open>get_latest_schema\<close> resolves it to an id, the result is that of
  serializing with this id under the handler of \<^verbatim>\<open>serialize\<close>.
\<close>

theorem C3_automatic_lookup:
  assumes start: "client self = (cs, [])"
  shows "snd (client (snd (AvroSerializer_serialize L (recording ops) cls obj None self)))
           = automatic_lookup_calls ops (avro_schema cls) cs
       \<and> (\<exists>rest. snd (client (snd (AvroSerializer_serialize L (recording ops) cls obj None self)))
             = CallFindArtifactByContent (avro_schema cls) # rest)
       \<and> (CallFindArtifactByFingerprint x
             \<in> set (snd (client (snd (AvroSerializer_serialize L (recording ops) cls obj None self))))
           \<longrightarrow> fst (find_artifact_by_content ops (avro_schema cls) cs) = Inr None)
       \<and> CallRegisterSchema rg ra rs rt
             \<notin> set (snd (client (snd (AvroSerializer_serialize L (recording ops) cls obj None self))))
       \<and> (find_artifact_by_content ops (avro_schema cls) cs = (Inr None, ca)
           \<and> find_artifact_by_fingerprint ops (avro_schema cls) ca = (Inr None, cb)
           \<longrightarrow> AvroSerializer_serialize L (recording ops) cls obj None self
             = (Inl (Exn SchemaMatchError
                  (''No matching schema found in registry for automatic lookup. ''
                   @ ''Please register the schema manually or specify a schema_id.'') None),
                self\<lparr>client := (cb, [CallFindArtifactByContent (avro_schema cls),
                                     CallFindArtifactByFingerprint (avro_schema cls)])\<rparr>))
       \<and> (find_artifact_by_content ops (avro_schema cls) cs = (Inr (Some (g, a)), ca)
           \<and> get_latest_schema ops g a ca = (Inr (sid, sch), cb)
           \<longrightarrow> AvroSerializer_serialize L (recording ops) cls obj None self
             = try_except (AvroSerializer_serialize_with_schema_id L (recording ops) cls obj sid)
                 (\<lambda>e. raiseS (serialize_except None e))
                 (self\<lparr>client := (cb, [CallFindArtifactByContent (avro_schema cls),
                                      CallGetLatestSchema g a])\<rparr>))
       \<and> (find_artifact_by_content ops (avro_schema cls) cs = (Inr None, ca)
           \<and> find_artifact_by_fingerprint ops (avro_schema cls) ca = (Inr (Some (g, a)), cb)
           \<and> get_latest_schema ops g a cb = (Inr (sid, sch), cc)
           \<longrightarrow> AvroSerializer_serialize L (recording ops) cls obj None self
             = try_except (AvroSerializer_serialize_with_schema_id L (recording ops) cls obj sid)
                 (\<lambda>e. raiseS (serialize_except None e))
                 (self\<lparr>client := (cc, [CallFindArtifactByContent (avro_schema cls),
                                      CallFindArtifactByFingerprint (avro_schema cls),
                                      CallGetLatestSchema g a])\<rparr>))"
proof -
  let ?sc = "avro_schema cls"
  let ?run = "AvroSerializer_serialize L (recording ops) cls obj None self"
  have calls: "snd (client (snd ?run)) = automatic_lookup_calls ops ?sc cs"
    unfolding AvroSerializer_serialize_def snd_try_except_raise
    using recorded_lookup [OF start, of L ops cls obj] by simp
  note shape = lookup_calls_shape [of ops ?sc cs x rg ra rs rt]
  have none: "?run = (Inl (Exn SchemaMatchError
                  (''No matching schema found in registry for automatic lookup. ''
                   @ ''Please register the schema manually or specify a schema_id.'') None),
                self\<lparr>client := (cb, [CallFindArtifactByContent ?sc,
                                     CallFindArtifactByFingerprint ?sc])\<rparr>)"
    if h: "find_artifact_by_content ops ?sc cs = (Inr None, ca)
           \<and> find_artifact_by_fingerprint ops ?sc ca = (Inr None, cb)"
  proof -
    let ?s1 = "self\<lparr>client := (ca, [CallFindArtifactByContent ?sc])\<rparr>"
    have step1: "call_client (find_artifact_by_content (recording ops) ?sc) self
        = (Inr None, ?s1)"
      unfolding recording_simps
      using call_recorded [where m = "find_artifact_by_content ops ?sc", OF start] h by simp
    have step2: "call_client (find_artifact_by_fingerprint (recording ops) ?sc) ?s1
        = (Inr None, self\<lparr>client := (cb, [CallFindArtifactByContent ?sc,
             CallFindArtifactByFingerprint ?sc])\<rparr>)"
      unfolding recording_simps
      using call_recorded [where m = "find_artifact_by_fingerprint ops ?sc" and self = ?s1] h
      by simp
    show ?thesis
      using step1 step2
      by (simp add: AvroSerializer_serialize_def serialize_try_def bindS_Inr raiseS_def
          try_except_def serialize_except_def)
  qed
  have by_content: "?run
      = try_except (AvroSerializer_serialize_with_schema_id L (recording ops) cls obj sid)
                 (\<lambda>e. raiseS (serialize_except None e))
                 (self\<lparr>client := (cb, [CallFindArtifactByContent ?sc,
                                      CallGetLatestSchema g a])\<rparr>)"
    if h: "find_artifact_by_content ops ?sc cs = (Inr (Some (g, a)), ca)
           \<and> get_latest_schema ops g a ca = (Inr (sid, sch), cb)"
  proof -
    let ?s1 = "self\<lparr>client := (ca, [CallFindArtifactByContent ?sc])\<rparr>"
    let ?s2 = "self\<lparr>client := (cb, [CallFindArtifactByContent ?sc, CallGetLatestSchema g a])\<rparr>"
    have step1: "call_client (find_artifact_by_content (recording ops) ?sc) self
        = (Inr (Some (g, a)), ?s1)"
      unfolding recording_simps
      using call_recorded [where m = "find_artifact_by_content ops ?sc", OF start] h by simp
    have step2: "call_client (get_latest_schema (recording ops) g a) ?s1 = (Inr (sid, sch), ?s2)"
      unfolding recording_simps
      using call_recorded [where m = "get_latest_schema ops g a" and self = ?s1] h by simp
    have "serialize_try L (recording ops) cls obj None self
        = AvroSerializer_serialize_with_schema_id L (recording ops) cls obj sid ?s2"
      using step1 step2 by (simp add: serialize_try_def bindS_Inr bindS_returnS)
    then show ?thesis by (simp add: AvroSerializer_serialize_def try_except_def)
  qed
  have by_fingerprint: "?run
      = try_except (AvroSerializer_serialize_with_schema_id L (recording ops) cls obj sid)
                 (\<lambda>e. raiseS (serialize_except None e))
                 (self\<lparr>client := (cc, [CallFindArtifactByContent ?sc,
                                      CallFindArtifactByFingerprint ?sc,
                                      CallGetLatestSchema g a])\<rparr>)"
    if h: "find_artifact_by_content ops ?sc cs = (Inr None, ca)
           \<and> find_artifact_by_fingerprint ops ?sc ca = (Inr (Some (g, a)), cb)
           \<and> get_latest_schema ops g a cb = (Inr (sid, sch), cc)"
  proof -
    let ?s1 = "self\<lparr>client := (ca, [CallFindArtifactByContent ?sc])\<rparr>"
    let ?s2 = "self\<lparr>client := (cb, [CallFindArtifactByContent ?sc,
        CallFindArtifactByFingerprint ?sc])\<rparr>"
    let ?s3 = "self\<lparr>client := (cc, [CallFindArtifactByContent ?sc,
        CallFindArtifactByFingerprint ?sc, CallGetLatestSchema g a])\<rparr>"
    have step1: "call_client (find_artifact_by_content (recording ops) ?sc) self
        = (Inr None, ?s1)"
      unfolding recording_simps
      using call_recorded [where m = "find_artifact_by_content ops ?sc", OF start] h by simp
    have step2: "call_client (find_artifact_by_fingerprint (recording ops) ?sc) ?s1
        = (Inr (Some (g, a)), ?s2)"
      unfolding recording_simps
      using call_recorded [where m = "find_artifact_by_fingerprint ops ?sc" and self = ?s1] h
      by simp
    have step3: "call_client (get_latest_schema (recording ops) g a) ?s2 = (Inr (sid, sch), ?s3)"
      unfolding recording_simps
      using call_recorded [where m = "get_latest_schema ops g a" and self = ?s2] h by simp
    have "serialize_try L (recording ops) cls obj None self
        = AvroSerializer_serialize_with_schema_id L (recording ops) cls obj sid ?s3"
      using step1 step2 step3 by (simp add: serialize_try_def bindS_Inr)
    then show ?thesis by (simp add: AvroSerializer_serialize_def try_except_def)
  qed
  show ?thesis
    unfolding calls using shape none by_content by_fingerprint unfolding calls by blast
qed

theorem C3_automatic_lookup_witness:
  "AvroSerializer_serialize demo_lib (recording (mock_ops None None (1, JNull) JNull))
       text_model ''hello'' None (AvroSerializer_init ((), []) True)
     = (Inl (Exn SchemaMatchError
              (''No matching schema found in registry for automatic lookup. ''
               @ ''Please register the schema manually or specify a schema_id.'') None),
        (AvroSerializer_init ((), []) True)
          \<lparr>client := ((), [CallFindArtifactByContent (avro_schema text_model),
                           CallFindArtifactByFingerprint (avro_schema text_model)])\<rparr>)
   \<and> snd (client (snd (AvroSerializer_serialize demo_lib
        (recording (mock_ops (Some (''g'', ''a'')) None (1, JNull) (JStr ''{x:str}'')))
        text_model ''hello'' None (AvroSerializer_init ((), []) True))))
     = [CallFindArtifactByContent ''{x:str}'', CallGetLatestSchema ''g'' ''a'',
        CallGetSchemaByGlobalId 1]"
proof
  let ?self = "AvroSerializer_init ((), []) True :: (unit \<times> client_call list) AvroSerializer"
  have start: "client ?self = ((), [])" by (simp add: AvroSerializer_init_def)
  let ?m = "mock_ops None None (1, JNull) JNull"
  have none: "find_artifact_by_content ?m (avro_schema text_model) () = (Inr None, ())
      \<and> find_artifact_by_fingerprint ?m (avro_schema text_model) () = (Inr None, ())"
    by (simp add: mock_ops_def returnS_def)
  from C3_automatic_lookup [where ops = ?m and cls = text_model and ca = "()"
        and cb = "()" and L = demo_lib and obj = "''hello''" and self = ?self, OF start] none
  show "AvroSerializer_serialize demo_lib (recording ?m) text_model ''hello'' None ?self
     = (Inl (Exn SchemaMatchError
              (''No matching schema found in registry for automatic lookup. ''
               @ ''Please register the schema manually or specify a schema_id.'') None),
        ?self\<lparr>client := ((), [CallFindArtifactByContent (avro_schema text_model),
                           CallFindArtifactByFingerprint (avro_schema text_model)])\<rparr>)"
    by blast
  let ?f = "mock_ops (Some (''g'', ''a'')) None (1, JNull) (JStr ''{x:str}'')"
  have calls: "automatic_lookup_calls ?f (avro_schema text_model) ()
      = [CallFindArtifactByContent ''{x:str}'', CallGetLatestSchema ''g'' ''a'',
         CallGetSchemaByGlobalId 1]"
    by (simp add: automatic_lookup_calls_def resolve_calls_def mock_ops_def returnS_def
        text_model_def)
  from C3_automatic_lookup [where ops = ?f and cls = text_model and L = demo_lib
      and obj = "''hello''" and self = ?self, OF start]
  have "snd (client (snd (AvroSerializer_serialize demo_lib (recording ?f) text_model
      ''hello'' None ?self))) = automatic_lookup_calls ?f (avro_schema text_model) ()"
    by blast
  with calls show "snd (client (snd (AvroSerializer_serialize demo_lib (recording ?f)
      text_model ''hello'' None ?self)))
     = [CallFindArtifactByContent ''{x:str}'', CallGetLatestSchema ''g'' ''a'',
        CallGetSchemaByGlobalId 1]"
    by simp
qed

section \<open>The parsed-schema cache, deserialization and the round trip\<close>

lemma keeps_bindS: "keeps P m \<Longrightarrow> (\<And>x. keeps P (f x)) \<Longrightarrow> keeps P (bindS m f)"
  unfolding keeps_def bindS_def
  by (auto split: prod.splits sum.splits)

lemma keeps_pure: "keeps P (liftE r)" "keeps P (returnS x)" "keeps P (raiseS e)"
  by (simp_all add: keeps_def liftE_def returnS_def raiseS_def)

lemma keeps_try: "keeps P m \<Longrightarrow> keeps P (try_except m (\<lambda>e. raiseS (f e)))"
  unfolding keeps_def by (simp add: snd_try_except_raise)

lemma keeps_call: "ignores_client P \<Longrightarrow> keeps P (call_client m)"
  unfolding keeps_def ignores_client_def call_client_def
  by (auto split: prod.splits)

lemma keeps_case_prod: "(\<And>a b. keeps P (f a b)) \<Longrightarrow> keeps P (case_prod f x)"
  by (cases x) simp

lemma keeps_serialize_with_schema_id:
  assumes "ignores_client P" "\<And>rs. keeps P (AvroSerializer_get_parsed_schema L sid rs)"
  shows "keeps P (AvroSerializer_serialize_with_schema_id L ops cls obj sid)"
  unfolding AvroSerializer_serialize_with_schema_id_def
  by (intro keeps_bindS keeps_pure keeps_call assms)

lemma keeps_serialize:
  assumes "ignores_client P" "\<And>sid rs. keeps P (AvroSerializer_get_parsed_schema L sid rs)"
  shows "keeps P (AvroSerializer_serialize L ops cls obj schema_id)"
proof -
  have w: "keeps P (AvroSerializer_serialize_with_schema_id L ops cls obj sid)" for sid
    by (rule keeps_serialize_with_schema_id [OF assms])
  have "keeps P (serialize_try L ops cls obj schema_id)"
  proof (cases schema_id)
    case (Some sid)
    then show ?thesis by (simp add: serialize_try_def w)
  next
    case None
    show ?thesis unfolding serialize_try_def None option.case
      by (intro keeps_bindS keeps_call assms(1))
        (auto intro!: keeps_bindS keeps_call keeps_pure keeps_case_prod w assms(1)
          split: option.splits)
  qed
  then show ?thesis unfolding AvroSerializer_serialize_def by (rule keeps_try)
qed

lemma keeps_fetch:
  assumes "ignores_client P" "\<And>sid rs. keeps P (AvroSerializer_get_parsed_schema L sid rs)"
  shows "keeps P (fetch_writer_schema L ops msg)"
  unfolding fetch_writer_schema_def
  by (intro keeps_bindS keeps_pure keeps_call keeps_case_prod assms)

lemma keeps_deserialize:
  assumes "ignores_client P" "\<And>sid rs. keeps P (AvroSerializer_get_parsed_schema L sid rs)"
  shows "keeps P (AvroSerializer_deserialize L ops msg tc)"
    and "keeps P (AvroSerializer_deserialize_with_schema L ops msg tc)"
  unfolding AvroSerializer_deserialize_def AvroSerializer_deserialize_with_schema_def
  by (intro keeps_try keeps_bindS keeps_pure keeps_case_prod keeps_fetch assms)+

lemma ignores_client_cache:
  "ignores_client (\<lambda>s. parsed_schema_cache s k = Some p)"
  "ignores_client (\<lambda>s. \<not> cache_schemas s \<and> parsed_schema_cache s = m)"
  "ignores_client (\<lambda>s. cache_schemas s = b)"
  by (simp_all add: ignores_client_def)

lemma get_parsed_schema_hit:
  "cache_schemas self \<Longrightarrow> parsed_schema_cache self sid = Some p \<Longrightarrow>
     AvroSerializer_get_parsed_schema L sid rs self = (Inr p, self)"
  by (simp add: AvroSerializer_get_parsed_schema_def)

lemma get_parsed_schema_insert:
  assumes "cache_schemas self" "parsed_schema_cache self sid = None"
    "AvroSerializer_get_parsed_schema L sid rs self = (Inr p, self')"
  shows "self' = self\<lparr>parsed_schema_cache := (parsed_schema_cache self)(sid \<mapsto> p)\<rparr>"
  using assms
  by (auto simp: AvroSerializer_get_parsed_schema_def Let_def split: sum.splits)

lemma get_parsed_schema_keeps_entry:
  "keeps (\<lambda>s. parsed_schema_cache s k = Some p) (AvroSerializer_get_parsed_schema L sid rs)"
  unfolding keeps_def
  by (auto simp: AvroSerializer_get_parsed_schema_def Let_def split: sum.splits option.splits)

lemma get_parsed_schema_keeps_disabled:
  "keeps (\<lambda>s. \<not> cache_schemas s \<and> parsed_schema_cache s = m)
     (AvroSerializer_get_parsed_schema L sid rs)"
  unfolding keeps_def
  by (auto simp: AvroSerializer_get_parsed_schema_def Let_def split: sum.splits option.splits)

lemma get_parsed_schema_disabled:
  "\<not> cache_schemas self \<Longrightarrow>
     fst (AvroSerializer_get_parsed_schema L sid rs self)
       = fst (AvroSerializer_get_parsed_schema L sid rs (self\<lparr>parsed_schema_cache := Map.empty\<rparr>))"
  by (simp add: AvroSerializer_get_parsed_schema_def Let_def split: sum.splits)

lemma recorded_serialize:
  "snd (client (snd (AvroSerializer_serialize L (recording ops) cls obj (Some sid) self)))
     = snd (client self) @ [CallGetSchemaByGlobalId sid]"
  by (simp add: AvroSerializer_serialize_def snd_try_except_raise serialize_try_def
      recorded_with_schema_id)

lemma recorded_fetch:
  assumes "ConfluentWireFormat_decode msg = Inr (w, payload)"
  shows "snd (client (snd (fetch_writer_schema L (recording ops) msg self)))
     = snd (client self) @ [CallGetSchemaByGlobalId (uint w)]"
proof (cases "get_schema_by_global_id ops (uint w) (fst (client self))")
  case (Pair r c')
  let ?s1 = "self\<lparr>client := (c', snd (client self) @ [CallGetSchemaByGlobalId (uint w)])\<rparr>"
  have d: "liftE (ConfluentWireFormat_decode msg) self = (Inr (w, payload), self)"
    using assms by (simp add: liftE_def)
  have step: "call_client (get_schema_by_global_id (recording ops) (uint w)) self = (r, ?s1)"
    using Pair by (simp add: recording_simps call_client_recorded)
  show ?thesis
  proof (cases r)
    case (Inl e)
    with step d show ?thesis
      by (simp add: fetch_writer_schema_def bindS_Inr bindS_Inl)
  next
    case (Inr rs)
    obtain r2 s2 where p: "AvroSerializer_get_parsed_schema L (uint w) rs ?s1 = (r2, s2)"
      by (cases "AvroSerializer_get_parsed_schema L (uint w) rs ?s1")
    with get_parsed_schema_client [of L "uint w" rs ?s1] have c: "client s2 = client ?s1" by simp
    show ?thesis
    proof (cases r2)
      case (Inl e)
      with step d p c \<open>r = Inr rs\<close> show ?thesis
        by (simp add: fetch_writer_schema_def bindS_Inr bindS_Inl)
    next
      case (Inr ps)
      with step d p c \<open>r = Inr rs\<close> show ?thesis
        by (simp add: fetch_writer_schema_def bindS_Inr returnS_def)
    qed
  qed
qed

lemma snd_bindS_client:
  assumes "\<And>x s. client (snd (f x s)) = client s"
  shows "client (snd (bindS m f s)) = client (snd (m s))"
  using assms by (simp add: bindS_def split: prod.splits sum.splits)

lemma recorded_deserialize:
  assumes "ConfluentWireFormat_decode msg = Inr (w, payload)"
  shows "snd (client (snd (AvroSerializer_deserialize L (recording ops) msg tc self)))
     = snd (client self) @ [CallGetSchemaByGlobalId (uint w)]"
    and "snd (client (snd (AvroSerializer_deserialize_with_schema L (recording ops) msg tc self)))
     = snd (client self) @ [CallGetSchemaByGlobalId (uint w)]"
proof -
  have "client (snd (AvroSerializer_deserialize L (recording ops) msg tc self))
      = client (snd (fetch_writer_schema L (recording ops) msg self))"
    unfolding AvroSerializer_deserialize_def snd_try_except_raise
    by (rule snd_bindS_client) (simp add: bindS_def liftE_def split: prod.splits sum.splits)
  then show "snd (client (snd (AvroSerializer_deserialize L (recording ops) msg tc self)))
     = snd (client self) @ [CallGetSchemaByGlobalId (uint w)]"
    using recorded_fetch [OF assms] by simp
  have "client (snd (AvroSerializer_deserialize_with_schema L (recording ops) msg tc self))
      = client (snd (fetch_writer_schema L (recording ops) msg self))"
    unfolding AvroSerializer_deserialize_with_schema_def snd_try_except_raise
    by (rule snd_bindS_client)
      (simp add: bindS_def liftE_def returnS_def split: prod.splits sum.splits)
  then show "snd (client (snd (AvroSerializer_deserialize_with_schema L (recording ops) msg tc
      self))) = snd (client self) @ [CallGetSchemaByGlobalId (uint w)]"
    using recorded_fetch [OF assms] by simp
qed

lemma get_parsed_schema_eq:
  "AvroSerializer_get_parsed_schema L sid rs st =
     (case (if cache_schemas st then parsed_schema_cache st sid else None) of
        Some cached \<Rightarrow> (Inr cached, st)
      | None \<Rightarrow>
          (case parse_registry_schema L sid rs of
             Inl e \<Rightarrow> (Inl e, st)
           | Inr ps \<Rightarrow>
               (Inr ps,
                if cache_schemas st
                then st\<lparr>parsed_schema_cache := (parsed_schema_cache st)(sid \<mapsto> ps)\<rparr>
                else st)))"
  by (simp add: AvroSerializer_get_parsed_schema_def parse_registry_schema_def Let_def
      split: option.splits json.splits sum.splits)

lemma with_schema_id_eq:
  assumes "get_schema_by_global_id ops sid (client st) = (Inr rs, c')"
    "AvroSerializer_get_parsed_schema L sid rs (st\<lparr>client := c'\<rparr>) = (Inr ps, st')"
  shows "AvroSerializer_serialize_with_schema_id L ops cls obj sid st
     = (encode_with L cls obj sid ps, st')"
  using assms
  by (simp add: AvroSerializer_serialize_with_schema_id_def encode_with_def
      AvroSerializer_validate_data_against_schema_def monad_defs split: sum.splits)

lemma with_schema_id_parse_fail:
  assumes "get_schema_by_global_id ops sid (client st) = (Inr rs, c')"
    "AvroSerializer_get_parsed_schema L sid rs (st\<lparr>client := c'\<rparr>) = (Inl e, st')"
  shows "AvroSerializer_serialize_with_schema_id L ops cls obj sid st = (Inl e, st')"
  using assms
  by (simp add: AvroSerializer_serialize_with_schema_id_def monad_defs)

lemma serialize_eq:
  "AvroSerializer_serialize L ops cls obj (Some sid) st
     = (map_sum (serialize_except (Some sid)) id
          (fst (AvroSerializer_serialize_with_schema_id L ops cls obj sid st)),
        snd (AvroSerializer_serialize_with_schema_id L ops cls obj sid st))"
  by (simp add: AvroSerializer_serialize_def serialize_try_def try_except_def raiseS_def
      split: prod.splits sum.splits)

lemma serialize_hit:
  assumes "cache_schemas st" "parsed_schema_cache st sid = Some p"
    "get_schema_by_global_id ops sid (client st) = (Inr rs, c')"
  shows "AvroSerializer_serialize L ops cls obj (Some sid) st
     = (map_sum (serialize_except (Some sid)) id (encode_with L cls obj sid p),
        st\<lparr>client := c'\<rparr>)"
proof -
  have "AvroSerializer_get_parsed_schema L sid rs (st\<lparr>client := c'\<rparr>)
      = (Inr p, st\<lparr>client := c'\<rparr>)"
    using assms(1,2) by (simp add: get_parsed_schema_eq)
  from with_schema_id_eq [OF assms(3) this, where cls = cls and obj = obj]
  show ?thesis by (simp add: serialize_eq)
qed

lemma serialize_parse:
  assumes "\<not> cache_schemas st \<or> parsed_schema_cache st sid = None"
    "get_schema_by_global_id ops sid (client st) = (Inr rs, c')"
  shows "AvroSerializer_serialize L ops cls obj (Some sid) st
     = (case parse_registry_schema L sid rs of
          Inl e \<Rightarrow> (Inl (serialize_except (Some sid) e), st\<lparr>client := c'\<rparr>)
        | Inr ps \<Rightarrow>
            (map_sum (serialize_except (Some sid)) id (encode_with L cls obj sid ps),
             if cache_schemas st
             then st\<lparr>client := c', parsed_schema_cache := (parsed_schema_cache st)(sid \<mapsto> ps)\<rparr>
             else st\<lparr>client := c'\<rparr>))"
proof (cases "parse_registry_schema L sid rs")
  case (Inl e)
  have "AvroSerializer_get_parsed_schema L sid rs (st\<lparr>client := c'\<rparr>)
      = (Inl e, st\<lparr>client := c'\<rparr>)"
    using assms(1) Inl by (auto simp: get_parsed_schema_eq)
  from with_schema_id_parse_fail [OF assms(2) this, where cls = cls and obj = obj] Inl
  show ?thesis by (simp add: serialize_eq)
next
  case (Inr ps)
  have "AvroSerializer_get_parsed_schema L sid rs (st\<lparr>client := c'\<rparr>)
      = (Inr ps, if cache_schemas st
             then st\<lparr>client := c', parsed_schema_cache := (parsed_schema_cache st)(sid \<mapsto> ps)\<rparr>
             else st\<lparr>client := c'\<rparr>)"
    using assms(1) Inr by (auto simp: get_parsed_schema_eq)
  from with_schema_id_eq [OF assms(2) this, where cls = cls and obj = obj] Inr
  show ?thesis by (simp add: serialize_eq)
qed

lemma deserialize_eq:
  assumes "fetch_writer_schema L ops msg st = (Inr (payload, rs, ps), st')"
  shows "AvroSerializer_deserialize L ops msg tc st
     = (map_sum (deserialize_except ''Failed to deserialize message: '') id
          (decode_with L tc payload ps (Some (avro_schema_to_python tc))), st')"
    and "AvroSerializer_deserialize_with_schema L ops msg tc st
     = (map_sum (deserialize_except ''Failed to deserialize message with schema: '')
          (\<lambda>obj. (obj, rs)) (decode_with L tc payload ps None), st')"
  using assms
  by (simp_all add: AvroSerializer_deserialize_def AvroSerializer_deserialize_with_schema_def
      decode_with_def monad_defs split: sum.splits)

lemma fetch_fail:
  assumes "fetch_writer_schema L ops msg st = (Inl e, st')"
  shows "AvroSerializer_deserialize L ops msg tc st
     = (Inl (deserialize_except ''Failed to deserialize message: '' e), st')"
    and "AvroSerializer_deserialize_with_schema L ops msg tc st
     = (Inl (deserialize_except ''Failed to deserialize message with schema: '' e), st')"
  using assms
  by (simp_all add: AvroSerializer_deserialize_def AvroSerializer_deserialize_with_schema_def
      monad_defs)

lemma fetch_writer_schema_eq:
  assumes "ConfluentWireFormat_decode msg = Inr (w, payload)"
    "get_schema_by_global_id ops (uint w) (client st) = (Inr rs, c')"
  shows "fetch_writer_schema L ops msg st
     = (case AvroSerializer_get_parsed_schema L (uint w) rs (st\<lparr>client := c'\<rparr>) of
          (Inl e, st') \<Rightarrow> (Inl e, st')
        | (Inr ps, st') \<Rightarrow> (Inr (payload, rs, ps), st'))"
  using assms by (simp add: fetch_writer_schema_def monad_defs split: prod.splits sum.splits)

lemma deserialize_hit:
  assumes "ConfluentWireFormat_decode msg = Inr (w, payload)"
    "cache_schemas st" "parsed_schema_cache st (uint w) = Some p"
    "get_schema_by_global_id ops (uint w) (client st) = (Inr rs, c')"
  shows "AvroSerializer_deserialize L ops msg tc st
     = (map_sum (deserialize_except ''Failed to deserialize message: '') id
          (decode_with L tc payload p (Some (avro_schema_to_python tc))), st\<lparr>client := c'\<rparr>)"
    and "AvroSerializer_deserialize_with_schema L ops msg tc st
     = (map_sum (deserialize_except ''Failed to deserialize message with schema: '')
          (\<lambda>obj. (obj, rs)) (decode_with L tc payload p None), st\<lparr>client := c'\<rparr>)"
proof -
  have "fetch_writer_schema L ops msg st = (Inr (payload, rs, p), st\<lparr>client := c'\<rparr>)"
    using assms(2,3) by (simp add: fetch_writer_schema_eq [OF assms(1,4)] get_parsed_schema_eq)
  from deserialize_eq [OF this, where tc = tc]
  show "AvroSerializer_deserialize L ops msg tc st
     = (map_sum (deserialize_except ''Failed to deserialize message: '') id
          (decode_with L tc payload p (Some (avro_schema_to_python tc))), st\<lparr>client := c'\<rparr>)"
    and "AvroSerializer_deserialize_with_schema L ops msg tc st
     = (map_sum (deserialize_except ''Failed to deserialize message with schema: '')
          (\<lambda>obj. (obj, rs)) (decode_with L tc payload p None), st\<lparr>client := c'\<rparr>)"
    by simp_all
qed

lemma deserialize_parse:
  assumes "ConfluentWireFormat_decode msg = Inr (w, payload)"
    "\<not> cache_schemas st \<or> parsed_schema_cache st (uint w) = None"
    "get_schema_by_global_id ops (uint w) (client st) = (Inr rs, c')"
  shows "AvroSerializer_deserialize L ops msg tc st
     = (case parse_registry_schema L (uint w) rs of
          Inl e \<Rightarrow>
            (Inl (deserialize_except ''Failed to deserialize message: '' e), st\<lparr>client := c'\<rparr>)
        | Inr ps \<Rightarrow>
            (map_sum (deserialize_except ''Failed to deserialize message: '') id
               (decode_with L tc payload ps (Some (avro_schema_to_python tc))),
             if cache_schemas st
             then st\<lparr>client := c',
                     parsed_schema_cache := (parsed_schema_cache st)(uint w \<mapsto> ps)\<rparr>
             else st\<lparr>client := c'\<rparr>))"
    and "AvroSerializer_deserialize_with_schema L ops msg tc st
     = (case parse_registry_schema L (uint w) rs of
          Inl e \<Rightarrow>
            (Inl (deserialize_except ''Failed to deserialize message with schema: '' e),
             st\<lparr>client := c'\<rparr>)
        | Inr ps \<Rightarrow>
            (map_sum (deserialize_except ''Failed to deserialize message with schema: '')
               (\<lambda>obj. (obj, rs)) (decode_with L tc payload ps None),
             if cache_schemas st
             then st\<lparr>client := c',
                     parsed_schema_cache := (parsed_schema_cache st)(uint w \<mapsto> ps)\<rparr>
             else st\<lparr>client := c'\<rparr>))"
proof -
  let ?st2 = "\<lambda>ps. if cache_schemas st
             then st\<lparr>client := c',
                     parsed_schema_cache := (parsed_schema_cache st)(uint w \<mapsto> ps)\<rparr>
             else st\<lparr>client := c'\<rparr>"
  have f: "fetch_writer_schema L ops msg st
      = (case parse_registry_schema L (uint w) rs of
           Inl e \<Rightarrow> (Inl e, st\<lparr>client := c'\<rparr>)
         | Inr ps \<Rightarrow> (Inr (payload, rs, ps), ?st2 ps))"
    using assms(2)
    by (auto simp: fetch_writer_schema_eq [OF assms(1,3)] get_parsed_schema_eq
        split: sum.splits)
  show "AvroSerializer_deserialize L ops msg tc st
     = (case parse_registry_schema L (uint w) rs of
          Inl e \<Rightarrow>
            (Inl (deserialize_except ''Failed to deserialize message: '' e), st\<lparr>client := c'\<rparr>)
        | Inr ps \<Rightarrow>
            (map_sum (deserialize_except ''Failed to deserialize message: '') id
               (decode_with L tc payload ps (Some (avro_schema_to_python tc))), ?st2 ps))"
  proof (cases "parse_registry_schema L (uint w) rs")
    case (Inl e)
    with f have "fetch_writer_schema L ops msg st = (Inl e, st\<lparr>client := c'\<rparr>)" by simp
    from fetch_fail(1) [OF this, where tc = tc] Inl show ?thesis by simp
  next
    case (Inr ps)
    with f have "fetch_writer_schema L ops msg st = (Inr (payload, rs, ps), ?st2 ps)" by simp
    from deserialize_eq(1) [OF this, where tc = tc] Inr show ?thesis by simp
  qed
  show "AvroSerializer_deserialize_with_schema L ops msg tc st
     = (case parse_registry_schema L (uint w) rs of
          Inl e \<Rightarrow>
            (Inl (deserialize_except ''Failed to deserialize message with schema: '' e),
             st\<lparr>client := c'\<rparr>)
        | Inr ps \<Rightarrow>
            (map_sum (deserialize_except ''Failed to deserialize message with schema: '')
               (\<lambda>obj. (obj, rs)) (decode_with L tc payload ps None), ?st2 ps))"
  proof (cases "parse_registry_schema L (uint w) rs")
    case (Inl e)
    with f have "fetch_writer_schema L ops msg st = (Inl e, st\<lparr>client := c'\<rparr>)" by simp
    from fetch_fail(2) [OF this, where tc = tc] Inl show ?thesis by simp
  next
    case (Inr ps)
    with f have "fetch_writer_schema L ops msg st = (Inr (payload, rs, ps), ?st2 ps)" by simp
    from deserialize_eq(2) [OF this, where tc = tc] Inr show ?thesis by simp
  qed
qed

text \<open>
  C6. Every \<^verbatim>\<open>serialize\<close> call with an explicit id, and every
  \<^verbatim>\<open>deserialize\<close> or \<^verbatim>\<open>deserialize_with_schema\<close> call on a well-formed frame,
  calls the client's \<^verbatim>\<open>get_schema_by_global_id\<close> once, whatever the cache holds: the
  fetch is not skipped. With caching enabled and the id cached, a call whose fetch
  succeeds works with the cached parsed schema, whatever schema the fetch returned:
  \<^verbatim>\<open>serialize\<close> checks and writes the object with it, \<^verbatim>\<open>deserialize\<close> and
  \<^verbatim>\<open>deserialize_with_schema\<close> read the payload with it as writer schema, nothing is
  parsed, and nothing but the client's part of the state changes. With caching disabled,
  or with the id not cached, such a call parses the schema the fetch returned and works
  with the result; if the parse succeeds the cache gets exactly that entry when caching
  is enabled, and stays as it is when caching is disabled. In \<^verbatim>\<open>_get_parsed_schema\<close>
  itself, a cached id is answered from the cache with the state unchanged, the first
  successful parse of an uncached id inserts exactly that entry, and with caching
  disabled the result does not depend on the cache. No \<^verbatim>\<open>serialize\<close>,
  \<^verbatim>\<open>deserialize\<close> or \<^verbatim>\<open>deserialize_with_schema\<close> call, whatever its arguments
  and outcome, changes or removes an entry that is present, and with caching disabled
  none changes the cache at all.
\<close>

theorem C6_cache_behaviour:
  "snd (client (snd (AvroSerializer_serialize L (recording ops) cls obj (Some sid) self)))
       = snd (client self) @ [CallGetSchemaByGlobalId sid]
   \<and> (ConfluentWireFormat_decode msg = Inr (w, payload) \<longrightarrow>
        snd (client (snd (AvroSerializer_deserialize L (recording ops) msg tc self)))
          = snd (client self) @ [CallGetSchemaByGlobalId (uint w)]
      \<and> snd (client (snd (AvroSerializer_deserialize_with_schema L (recording ops) msg tc self)))
          = snd (client self) @ [CallGetSchemaByGlobalId (uint w)])
   \<and> (cache_schemas st \<and> parsed_schema_cache st sid = Some p \<longrightarrow>
        AvroSerializer_get_parsed_schema L sid rs st = (Inr p, st))
   \<and> (cache_schemas st \<and> parsed_schema_cache st sid = None
        \<and> AvroSerializer_get_parsed_schema L sid rs st = (Inr p, st') \<longrightarrow>
        st' = st\<lparr>parsed_schema_cache := (parsed_schema_cache st)(sid \<mapsto> p)\<rparr>)
   \<and> keeps (\<lambda>s. parsed_schema_cache s k = Some q) (AvroSerializer_serialize L ops' cls obj sid')
   \<and> keeps (\<lambda>s. parsed_schema_cache s k = Some q) (AvroSerializer_deserialize L ops' msg tc)
   \<and> keeps (\<lambda>s. parsed_schema_cache s k = Some q)
        (AvroSerializer_deserialize_with_schema L ops' msg tc)
   \<and> keeps (\<lambda>s. \<not> cache_schemas s \<and> parsed_schema_cache s = m)
        (AvroSerializer_serialize L ops' cls obj sid')
   \<and> keeps (\<lambda>s. \<not> cache_schemas s \<and> parsed_schema_cache s = m)
        (AvroSerializer_deserialize L ops' msg tc)
   \<and> keeps (\<lambda>s. \<not> cache_schemas s \<and> parsed_schema_cache s = m)
        (AvroSerializer_deserialize_with_schema L ops' msg tc)
   \<and> (\<not> cache_schemas st \<longrightarrow>
        fst (AvroSerializer_get_parsed_schema L sid rs st)
          = fst (AvroSerializer_get_parsed_schema L sid rs
                   (st\<lparr>parsed_schema_cache := Map.empty\<rparr>)))
   \<and> (cache_schemas st \<and> parsed_schema_cache st sid = Some p
        \<and> get_schema_by_global_id ops' sid (client st) = (Inr rs, c') \<longrightarrow>
        AvroSerializer_serialize L ops' cls obj (Some sid) st
          = (map_sum (serialize_except (Some sid)) id (encode_with L cls obj sid p),
             st\<lparr>client := c'\<rparr>))
   \<and> (ConfluentWireFormat_decode msg = Inr (w, payload)
        \<and> cache_schemas st \<and> parsed_schema_cache st (uint w) = Some p
        \<and> get_schema_by_global_id ops' (uint w) (client st) = (Inr rs, c') \<longrightarrow>
        AvroSerializer_deserialize L ops' msg tc st
          = (map_sum (deserialize_except ''Failed to deserialize message: '') id
               (decode_with L tc payload p (Some (avro_schema_to_python tc))),
             st\<lparr>client := c'\<rparr>)
      \<and> AvroSerializer_deserialize_with_schema L ops' msg tc st
          = (map_sum (deserialize_except ''Failed to deserialize message with schema: '')
               (\<lambda>obj. (obj, rs)) (decode_with L tc payload p None),
             st\<lparr>client := c'\<rparr>))
   \<and> ((\<not> cache_schemas st \<or> parsed_schema_cache st sid = None)
        \<and> get_schema_by_global_id ops' sid (client st) = (Inr rs, c') \<longrightarrow>
        AvroSerializer_serialize L ops' cls obj (Some sid) st
          = (case parse_registry_schema L sid rs of
               Inl e \<Rightarrow> (Inl (serialize_except (Some sid) e), st\<lparr>client := c'\<rparr>)
             | Inr ps \<Rightarrow>
                 (map_sum (serialize_except (Some sid)) id (encode_with L cls obj sid ps),
                  if cache_schemas st
                  then st\<lparr>client := c',
                          parsed_schema_cache := (parsed_schema_cache st)(sid \<mapsto> ps)\<rparr>
                  else st\<lparr>client := c'\<rparr>)))
   \<and> (ConfluentWireFormat_decode msg = Inr (w, payload)
        \<and> (\<not> cache_schemas st \<or> parsed_schema_cache st (uint w) = None)
        \<and> get_schema_by_global_id ops' (uint w) (client st) = (Inr rs, c') \<longrightarrow>
        AvroSerializer_deserialize L ops' msg tc st
          = (case parse_registry_schema L (uint w) rs of
               Inl e \<Rightarrow>
                 (Inl (deserialize_except ''Failed to deserialize message: '' e),
                  st\<lparr>client := c'\<rparr>)
             | Inr ps \<Rightarrow>
                 (map_sum (deserialize_except ''Failed to deserialize message: '') id
                    (decode_with L tc payload ps (Some (avro_schema_to_python tc))),
                  if cache_schemas st
                  then st\<lparr>client := c',
                          parsed_schema_cache := (parsed_schema_cache st)(uint w \<mapsto> ps)\<rparr>
                  else st\<lparr>client := c'\<rparr>))
      \<and> AvroSerializer_deserialize_with_schema L ops' msg tc st
          = (case parse_registry_schema L (uint w) rs of
               Inl e \<Rightarrow>
                 (Inl (deserialize_except ''Failed to deserialize message with schema: '' e),
                  st\<lparr>client := c'\<rparr>)
             | Inr ps \<Rightarrow>
                 (map_sum (deserialize_except ''Failed to deserialize message with schema: '')
                    (\<lambda>obj. (obj, rs)) (decode_with L tc payload ps None),
                  if cache_schemas st
                  then st\<lparr>client := c',
                          parsed_schema_cache := (parsed_schema_cache st)(uint w \<mapsto> ps)\<rparr>
                  else st\<lparr>client := c'\<rparr>)))"
proof (intro conjI impI)
  show "snd (client (snd (AvroSerializer_serialize L (recording ops) cls obj (Some sid) self)))
       = snd (client self) @ [CallGetSchemaByGlobalId sid]"
    by (rule recorded_serialize)
  show "snd (client (snd (AvroSerializer_deserialize L (recording ops) msg tc self)))
          = snd (client self) @ [CallGetSchemaByGlobalId (uint w)]"
    if "ConfluentWireFormat_decode msg = Inr (w, payload)"
    by (rule recorded_deserialize(1) [OF that])
  show "snd (client (snd (AvroSerializer_deserialize_with_schema L (recording ops) msg tc self)))
          = snd (client self) @ [CallGetSchemaByGlobalId (uint w)]"
    if "ConfluentWireFormat_decode msg = Inr (w, payload)"
    by (rule recorded_deserialize(2) [OF that])
  show "AvroSerializer_get_parsed_schema L sid rs st = (Inr p, st)"
    if "cache_schemas st \<and> parsed_schema_cache st sid = Some p"
    using that by (simp add: get_parsed_schema_hit)
  show "st' = st\<lparr>parsed_schema_cache := (parsed_schema_cache st)(sid \<mapsto> p)\<rparr>"
    if "cache_schemas st \<and> parsed_schema_cache st sid = None
        \<and> AvroSerializer_get_parsed_schema L sid rs st = (Inr p, st')"
    using that get_parsed_schema_insert by blast
  show "keeps (\<lambda>s. parsed_schema_cache s k = Some q)
      (AvroSerializer_serialize L ops' cls obj sid')"
    by (rule keeps_serialize [OF ignores_client_cache(1) get_parsed_schema_keeps_entry])
  show "keeps (\<lambda>s. parsed_schema_cache s k = Some q) (AvroSerializer_deserialize L ops' msg tc)"
    by (rule keeps_deserialize(1) [OF ignores_client_cache(1) get_parsed_schema_keeps_entry])
  show "keeps (\<lambda>s. parsed_schema_cache s k = Some q)
      (AvroSerializer_deserialize_with_schema L ops' msg tc)"
    by (rule keeps_deserialize(2) [OF ignores_client_cache(1) get_parsed_schema_keeps_entry])
  show "keeps (\<lambda>s. \<not> cache_schemas s \<and> parsed_schema_cache s = m)
        (AvroSerializer_serialize L ops' cls obj sid')"
    by (rule keeps_serialize [OF ignores_client_cache(2) get_parsed_schema_keeps_disabled])
  show "keeps (\<lambda>s. \<not> cache_schemas s \<and> parsed_schema_cache s = m)
        (AvroSerializer_deserialize L ops' msg tc)"
    by (rule keeps_deserialize(1) [OF ignores_client_cache(2) get_parsed_schema_keeps_disabled])
  show "keeps (\<lambda>s. \<not> cache_schemas s \<and> parsed_schema_cache s = m)
        (AvroSerializer_deserialize_with_schema L ops' msg tc)"
    by (rule keeps_deserialize(2) [OF ignores_client_cache(2) get_parsed_schema_keeps_disabled])
  show "fst (AvroSerializer_get_parsed_schema L sid rs st)
          = fst (AvroSerializer_get_parsed_schema L sid rs
                   (st\<lparr>parsed_schema_cache := Map.empty\<rparr>))"
    if "\<not> cache_schemas st"
    by (rule get_parsed_schema_disabled [OF that])
  show "AvroSerializer_serialize L ops' cls obj (Some sid) st
          = (map_sum (serialize_except (Some sid)) id (encode_with L cls obj sid p),
             st\<lparr>client := c'\<rparr>)"
    if "cache_schemas st \<and> parsed_schema_cache st sid = Some p
        \<and> get_schema_by_global_id ops' sid (client st) = (Inr rs, c')"
    using that by (elim conjE) (rule serialize_hit)
  show "AvroSerializer_deserialize L ops' msg tc st
          = (map_sum (deserialize_except ''Failed to deserialize message: '') id
               (decode_with L tc payload p (Some (avro_schema_to_python tc))),
             st\<lparr>client := c'\<rparr>)"
    if "ConfluentWireFormat_decode msg = Inr (w, payload)
        \<and> cache_schemas st \<and> parsed_schema_cache st (uint w) = Some p
        \<and> get_schema_by_global_id ops' (uint w) (client st) = (Inr rs, c')"
    using that by (elim conjE) (rule deserialize_hit(1))
  show "AvroSerializer_deserialize_with_schema L ops' msg tc st
          = (map_sum (deserialize_except ''Failed to deserialize message with schema: '')
               (\<lambda>obj. (obj, rs)) (decode_with L tc payload p None),
             st\<lparr>client := c'\<rparr>)"
    if "ConfluentWireFormat_decode msg = Inr (w, payload)
        \<and> cache_schemas st \<and> parsed_schema_cache st (uint w) = Some p
        \<and> get_schema_by_global_id ops' (uint w) (client st) = (Inr rs, c')"
    using that by (elim conjE) (rule deserialize_hit(2))
  show "AvroSerializer_serialize L ops' cls obj (Some sid) st
          = (case parse_registry_schema L sid rs of
               Inl e \<Rightarrow> (Inl (serialize_except (Some sid) e), st\<lparr>client := c'\<rparr>)
             | Inr ps \<Rightarrow>
                 (map_sum (serialize_except (Some sid)) id (encode_with L cls obj sid ps),
                  if cache_schemas st
                  then st\<lparr>client := c',
                          parsed_schema_cache := (parsed_schema_cache st)(sid \<mapsto> ps)\<rparr>
                  else st\<lparr>client := c'\<rparr>))"
    if "(\<not> cache_schemas st \<or> parsed_schema_cache st sid = None)
        \<and> get_schema_by_global_id ops' sid (client st) = (Inr rs, c')"
    using that by (elim conjE) (rule serialize_parse)
  show "AvroSerializer_deserialize L ops' msg tc st
          = (case parse_registry_schema L (uint w) rs of
               Inl e \<Rightarrow>
                 (Inl (deserialize_except ''Failed to deserialize message: '' e),
                  st\<lparr>client := c'\<rparr>)
             | Inr ps \<Rightarrow>
                 (map_sum (deserialize_except ''Failed to deserialize message: '') id
                    (decode_with L tc payload ps (Some (avro_schema_to_python tc))),
                  if cache_schemas st
                  then st\<lparr>client := c',
                          parsed_schema_cache := (parsed_schema_cache st)(uint w \<mapsto> ps)\<rparr>
                  else st\<lparr>client := c'\<rparr>))"
    if "ConfluentWireFormat_decode msg = Inr (w, payload)
        \<and> (\<not> cache_schemas st \<or> parsed_schema_cache st (uint w) = None)
        \<and> get_schema_by_global_id ops' (uint w) (client st) = (Inr rs, c')"
    using that by (elim conjE) (rule deserialize_parse(1))
  show "AvroSerializer_deserialize_with_schema L ops' msg tc st
          = (case parse_registry_schema L (uint w) rs of
               Inl e \<Rightarrow>
                 (Inl (deserialize_except ''Failed to deserialize message with schema: '' e),
                  st\<lparr>client := c'\<rparr>)
             | Inr ps \<Rightarrow>
                 (map_sum (deserialize_except ''Failed to deserialize message with schema: '')
                    (\<lambda>obj. (obj, rs)) (decode_with L tc payload ps None),
                  if cache_schemas st
                  then st\<lparr>client := c',
                          parsed_schema_cache := (parsed_schema_cache st)(uint w \<mapsto> ps)\<rparr>
                  else st\<lparr>client := c'\<rparr>))"
    if "ConfluentWireFormat_decode msg = Inr (w, payload)
        \<and> (\<not> cache_schemas st \<or> parsed_schema_cache st (uint w) = None)
        \<and> get_schema_by_global_id ops' (uint w) (client st) = (Inr rs, c')"
    using that by (elim conjE) (rule deserialize_parse(2))
qed

theorem C6_cache_behaviour_witness:
  "AvroSerializer_get_parsed_schema demo_lib 1 JNull
       \<lparr>client = (), cache_schemas = True, parsed_schema_cache = [1 \<mapsto> JStr ''{x:str}'']\<rparr>
     = (Inr (JStr ''{x:str}''),
        \<lparr>client = (), cache_schemas = True, parsed_schema_cache = [1 \<mapsto> JStr ''{x:str}'']\<rparr>)
   \<and> parsed_schema_cache
        (snd (AvroSerializer_deserialize demo_lib (mock_ops None None (1, JNull) JNull)
           [0, 0, 0, 0, 1, 104, 105] text_model
           \<lparr>client = (), cache_schemas = True,
            parsed_schema_cache = [1 \<mapsto> JStr ''{x:str}'']\<rparr>)) 1
     = Some (JStr ''{x:str}'')
   \<and> AvroSerializer_serialize demo_lib (mock_ops None None (1, JNull) JNull)
        text_model ''hi'' (Some 1)
        \<lparr>client = (), cache_schemas = True, parsed_schema_cache = [1 \<mapsto> JStr ''{x:str}'']\<rparr>
     = (Inr [0, 0, 0, 0, 1, 104, 105],
        \<lparr>client = (), cache_schemas = True, parsed_schema_cache = [1 \<mapsto> JStr ''{x:str}'']\<rparr>)
   \<and> AvroSerializer_deserialize demo_lib (mock_ops None None (1, JNull) JNull)
        [0, 0, 0, 0, 1, 104, 105] text_model
        \<lparr>client = (), cache_schemas = True, parsed_schema_cache = [1 \<mapsto> JStr ''{x:str}'']\<rparr>
     = (Inr ''hi'',
        \<lparr>client = (), cache_schemas = True, parsed_schema_cache = [1 \<mapsto> JStr ''{x:str}'']\<rparr>)
   \<and> AvroSerializer_serialize demo_lib (mock_ops None None (1, JNull) (JStr ''{ x : str }''))
        text_model ''hi'' (Some 1)
        \<lparr>client = (), cache_schemas = False, parsed_schema_cache = Map.empty\<rparr>
     = (Inr [0, 0, 0, 0, 1, 104, 105],
        \<lparr>client = (), cache_schemas = False, parsed_schema_cache = Map.empty\<rparr>)"
proof -
  let ?st = "\<lparr>client = (), cache_schemas = True,
      parsed_schema_cache = [1 \<mapsto> JStr ''{x:str}'']\<rparr>"
  let ?off = "\<lparr>client = (), cache_schemas = False, parsed_schema_cache = Map.empty\<rparr>
    :: unit AvroSerializer"
  let ?ops = "mock_ops None None (1, JNull) JNull"
  let ?ops2 = "mock_ops None None (1, JNull) (JStr ''{ x : str }'')"
  let ?msg = "[0, 0, 0, 0, 1, 104, 105] :: byte list"
  have a: "cache_schemas ?st \<and> parsed_schema_cache ?st 1 = Some (JStr ''{x:str}'')" by simp
  have dec: "ConfluentWireFormat_decode ?msg = Inr (1, [104, 105])"
    by (simp add: ConfluentWireFormat_decode_def from_be32_def)
  have fetch: "get_schema_by_global_id ?ops 1 (client ?st) = (Inr JNull, ())"
    by (simp add: mock_ops_def returnS_def)
  have fetch2: "get_schema_by_global_id ?ops2 1 (client ?off) = (Inr (JStr ''{ x : str }''), ())"
    by (simp add: mock_ops_def returnS_def)
  have enc: "encode_with demo_lib text_model ''hi'' 1 (JStr ''{x:str}'') = Inr ?msg"
    by (simp add: encode_with_def encode_call_def demo_lib_def text_model_def
        ConfluentWireFormat_encode_def be32_def)
  have chars: "char_of (104 :: nat) = CHR ''h''" "char_of (105 :: nat) = CHR ''i''"
    by code_simp+
  have rd: "decode_with demo_lib text_model [104, 105] (JStr ''{x:str}'')
      (Some (avro_schema_to_python text_model)) = Inr ''hi''"
    by (simp add: decode_with_def demo_lib_def text_model_def chars)
  have parse: "parse_registry_schema demo_lib 1 (JStr ''{ x : str }'') = Inr (JStr ''{x:str}'')"
    by (simp add: parse_registry_schema_def demo_lib_def)
  note t = C6_cache_behaviour [where st = ?st and sid = 1 and p = "JStr ''{x:str}''"
      and L = demo_lib and rs = JNull and k = 1 and q = "JStr ''{x:str}''" and ops' = ?ops
      and msg = ?msg and tc = text_model and ops = ?ops
      and cls = text_model and obj = "''hi''" and self = "AvroSerializer_init ((), []) True"
      and w = 1 and payload = "[104, 105]" and st' = ?st and sid' = "Some 1"
      and m = Map.empty and c' = "()"]
  note u = C6_cache_behaviour [where st = ?off and sid = 1 and p = "JStr ''{x:str}''"
      and L = demo_lib and rs = "JStr ''{ x : str }''" and k = 1 and q = "JStr ''{x:str}''"
      and ops' = ?ops2 and msg = ?msg and tc = text_model and ops = ?ops2
      and cls = text_model and obj = "''hi''" and self = "AvroSerializer_init ((), []) True"
      and w = 1 and payload = "[104, 105]" and st' = ?off and sid' = "Some 1"
      and m = Map.empty and c' = "()"]
  from t a have hit: "AvroSerializer_get_parsed_schema demo_lib 1 JNull ?st
      = (Inr (JStr ''{x:str}''), ?st)" by blast
  from t have "keeps (\<lambda>s. parsed_schema_cache s 1 = Some (JStr ''{x:str}''))
      (AvroSerializer_deserialize demo_lib ?ops ?msg text_model)"
    by blast
  with a have kept: "parsed_schema_cache
        (snd (AvroSerializer_deserialize demo_lib ?ops ?msg text_model ?st)) 1
     = Some (JStr ''{x:str}'')"
    unfolding keeps_def by blast
  from t a fetch have "AvroSerializer_serialize demo_lib ?ops text_model ''hi'' (Some 1) ?st
      = (map_sum (serialize_except (Some 1)) id
           (encode_with demo_lib text_model ''hi'' 1 (JStr ''{x:str}'')), ?st\<lparr>client := ()\<rparr>)"
    by blast
  with enc have ser: "AvroSerializer_serialize demo_lib ?ops text_model ''hi'' (Some 1) ?st
      = (Inr ?msg, ?st)" by simp
  have a1: "cache_schemas ?st \<and> parsed_schema_cache ?st (uint (1 :: 32 word))
      = Some (JStr ''{x:str}'')" by simp
  have fetch1: "get_schema_by_global_id ?ops (uint (1 :: 32 word)) (client ?st) = (Inr JNull, ())"
    by (simp add: mock_ops_def returnS_def)
  from t dec a1 fetch1 have "AvroSerializer_deserialize demo_lib ?ops ?msg text_model ?st
      = (map_sum (deserialize_except ''Failed to deserialize message: '') id
           (decode_with demo_lib text_model [104, 105] (JStr ''{x:str}'')
              (Some (avro_schema_to_python text_model))), ?st\<lparr>client := ()\<rparr>)"
    by blast
  with rd have des: "AvroSerializer_deserialize demo_lib ?ops ?msg text_model ?st
      = (Inr ''hi'', ?st)" by simp
  have b: "\<not> cache_schemas ?off \<or> parsed_schema_cache ?off 1 = None" by simp
  from u b fetch2 have "AvroSerializer_serialize demo_lib ?ops2 text_model ''hi'' (Some 1) ?off
      = (case parse_registry_schema demo_lib 1 (JStr ''{ x : str }'') of
           Inl e \<Rightarrow> (Inl (serialize_except (Some 1) e), ?off\<lparr>client := ()\<rparr>)
         | Inr ps \<Rightarrow>
             (map_sum (serialize_except (Some 1)) id (encode_with demo_lib text_model ''hi'' 1 ps),
              if cache_schemas ?off
              then ?off\<lparr>client := (),
                        parsed_schema_cache := (parsed_schema_cache ?off)(1 \<mapsto> ps)\<rparr>
              else ?off\<lparr>client := ()\<rparr>))"
    by blast
  with parse enc have off: "AvroSerializer_serialize demo_lib ?ops2 text_model ''hi'' (Some 1) ?off
      = (Inr ?msg, ?off)" by simp
  from hit kept ser des off show ?thesis by simp
qed

lemmas run_defs = AvroSerializer_serialize_def serialize_try_def serialize_except_def
  AvroSerializer_serialize_with_schema_id_def AvroSerializer_validate_data_against_schema_def
  AvroSerializer_get_parsed_schema_def AvroSerializer_init_def encode_call_def
  monad_defs mock_ops_def demo_lib_def int_model_def text_model_def
  recording_def record_call_def ConfluentWireFormat_encode_def be32_def Let_def

lemma demo_first_run:
  "AvroSerializer_serialize demo_lib
       (recording (mock_ops None None (1, JNull) (JStr ''{x:str}'')))
       text_model ''hi'' (Some 1) (AvroSerializer_init ((), []) True)
     = (Inr [0, 0, 0, 0, 1, 104, 105],
        \<lparr>client = ((), [CallGetSchemaByGlobalId 1]), cache_schemas = True,
         parsed_schema_cache = [1 \<mapsto> JStr ''{x:str}'']\<rparr>)"
  by (simp add: run_defs)

text \<open>
  A cached id does not spare the fetch: with caching enabled, a first successful
  \<^verbatim>\<open>serialize\<close> caches the parsed schema of id 1, and a second \<^verbatim>\<open>serialize\<close> for
  id 1 calls the client's \<^verbatim>\<open>get_schema_by_global_id\<close> again.
\<close>

theorem C6_fetch_not_skipped_counterexample:
  "fst (AvroSerializer_serialize demo_lib
       (recording (mock_ops None None (1, JNull) (JStr ''{x:str}'')))
       text_model ''hi'' (Some 1) (AvroSerializer_init ((), []) True))
     = Inr [0, 0, 0, 0, 1, 104, 105]
   \<and> parsed_schema_cache (snd (AvroSerializer_serialize demo_lib
       (recording (mock_ops None None (1, JNull) (JStr ''{x:str}'')))
       text_model ''hi'' (Some 1) (AvroSerializer_init ((), []) True))) 1
     = Some (JStr ''{x:str}'')
   \<and> snd (client (snd (AvroSerializer_serialize demo_lib
       (recording (mock_ops None None (1, JNull) (JStr ''{x:str}'')))
       text_model ''hi'' (Some 1)
       (snd (AvroSerializer_serialize demo_lib
         (recording (mock_ops None None (1, JNull) (JStr ''{x:str}'')))
         text_model ''hi'' (Some 1) (AvroSerializer_init ((), []) True))))))
     = [CallGetSchemaByGlobalId 1, CallGetSchemaByGlobalId 1]"
  unfolding demo_first_run by (simp add: run_defs)

lemma fetch_writer_schema_ok:
  assumes "ConfluentWireFormat_decode msg = Inr (w, payload)"
    "get_schema_by_global_id ops (uint w) (client self) = (Inr rs, c')"
    "AvroSerializer_get_parsed_schema L (uint w) rs (self\<lparr>client := c'\<rparr>) = (Inr ps, self')"
  shows "fetch_writer_schema L ops msg self = (Inr (payload, rs, ps), self')"
  using assms by (simp add: fetch_writer_schema_def monad_defs)

text \<open>
  C7. \<^verbatim>\<open>deserialize_with_schema\<close> does not depend on the target class's own schema.
  When the frame is well formed, the schema of the embedded id is fetched and its parsed
  form obtained, the payload is decoded with that writer schema and no reader schema,
  and on success the second component of the result is the schema as the client
  returned it; \<^verbatim>\<open>deserialize\<close> differs in passing the target class's schema as reader
  schema and in returning the object alone.
\<close>

theorem C7_deserialize_with_schema:
  "AvroSerializer_deserialize_with_schema L ops msg
       (tc\<lparr>avro_schema := other_text, avro_schema_to_python := other_schema\<rparr>) self
     = AvroSerializer_deserialize_with_schema L ops msg tc self
   \<and> (ConfluentWireFormat_decode msg = Inr (w, payload)
      \<and> get_schema_by_global_id ops (uint w) (client self) = (Inr rs, c')
      \<and> AvroSerializer_get_parsed_schema L (uint w) rs (self\<lparr>client := c'\<rparr>) = (Inr ps, self')
      \<longrightarrow>
        AvroSerializer_deserialize_with_schema L ops msg tc self
          = (case schemaless_reader L payload ps None of
               Inl e \<Rightarrow>
                 (Inl (deserialize_except ''Failed to deserialize message with schema: '' e), self')
             | Inr obj_dict \<Rightarrow>
                 (case parse_obj tc obj_dict of
                    Inl e \<Rightarrow>
                      (Inl (deserialize_except ''Failed to deserialize message with schema: '' e),
                       self')
                  | Inr obj \<Rightarrow> (Inr (obj, rs), self')))
      \<and> AvroSerializer_deserialize L ops msg tc self
          = (case schemaless_reader L payload ps (Some (avro_schema_to_python tc)) of
               Inl e \<Rightarrow> (Inl (deserialize_except ''Failed to deserialize message: '' e), self')
             | Inr obj_dict \<Rightarrow>
                 (case parse_obj tc obj_dict of
                    Inl e \<Rightarrow>
                      (Inl (deserialize_except ''Failed to deserialize message: '' e), self')
                  | Inr obj \<Rightarrow> (Inr obj, self'))))"
proof (intro conjI impI)
  show "AvroSerializer_deserialize_with_schema L ops msg
       (tc\<lparr>avro_schema := other_text, avro_schema_to_python := other_schema\<rparr>) self
     = AvroSerializer_deserialize_with_schema L ops msg tc self"
    by (simp add: AvroSerializer_deserialize_with_schema_def)
next
  assume h: "ConfluentWireFormat_decode msg = Inr (w, payload)
      \<and> get_schema_by_global_id ops (uint w) (client self) = (Inr rs, c')
      \<and> AvroSerializer_get_parsed_schema L (uint w) rs (self\<lparr>client := c'\<rparr>) = (Inr ps, self')"
  then have f: "fetch_writer_schema L ops msg self = (Inr (payload, rs, ps), self')"
    by (simp add: fetch_writer_schema_ok)
  show "AvroSerializer_deserialize_with_schema L ops msg tc self
          = (case schemaless_reader L payload ps None of
               Inl e \<Rightarrow>
                 (Inl (deserialize_except ''Failed to deserialize message with schema: '' e), self')
             | Inr obj_dict \<Rightarrow>
                 (case parse_obj tc obj_dict of
                    Inl e \<Rightarrow>
                      (Inl (deserialize_except ''Failed to deserialize message with schema: '' e),
                       self')
                  | Inr obj \<Rightarrow> (Inr (obj, rs), self')))"
    using f by (simp add: AvroSerializer_deserialize_with_schema_def monad_defs split: sum.splits)
  show "AvroSerializer_deserialize L ops msg tc self
          = (case schemaless_reader L payload ps (Some (avro_schema_to_python tc)) of
               Inl e \<Rightarrow> (Inl (deserialize_except ''Failed to deserialize message: '' e), self')
             | Inr obj_dict \<Rightarrow>
                 (case parse_obj tc obj_dict of
                    Inl e \<Rightarrow>
                      (Inl (deserialize_except ''Failed to deserialize message: '' e), self')
                  | Inr obj \<Rightarrow> (Inr obj, self')))"
    using f by (simp add: AvroSerializer_deserialize_def monad_defs split: sum.splits)
qed

theorem C7_deserialize_with_schema_witness:
  "AvroSerializer_deserialize_with_schema demo_lib
       (mock_ops None None (1, JNull) (JDict [(''schema'', JStr ''{ x : str }'')]))
       [0, 0, 0, 0, 1, 104, 105] text_model (AvroSerializer_init () False)
     = (Inr (''hi'', JDict [(''schema'', JStr ''{ x : str }'')]), AvroSerializer_init () False)"
proof -
  let ?rs = "JDict [(''schema'', JStr ''{ x : str }'')]"
  let ?ops = "mock_ops None None (1, JNull) ?rs"
  let ?self = "AvroSerializer_init () False"
  have dec: "ConfluentWireFormat_decode [0, 0, 0, 0, 1, 104, 105] = Inr (1, [104, 105])"
    by (simp add: ConfluentWireFormat_decode_def from_be32_def)
  have fetch: "get_schema_by_global_id ?ops (uint (1 :: 32 word)) (client ?self) = (Inr ?rs, ())"
    by (simp add: mock_ops_def returnS_def)
  have parse: "AvroSerializer_get_parsed_schema demo_lib (uint (1 :: 32 word)) ?rs
      (?self\<lparr>client := ()\<rparr>) = (Inr (JStr ''{x:str}''), ?self)"
    by (simp add: AvroSerializer_get_parsed_schema_def AvroSerializer_init_def demo_lib_def
        Let_def)
  from C7_deserialize_with_schema [where msg = "[0, 0, 0, 0, 1, 104, 105]" and w = 1
      and payload = "[104, 105]" and ops = ?ops and self = ?self and rs = ?rs and c' = "()"
      and L = demo_lib and ps = "JStr ''{x:str}''" and self' = ?self and tc = text_model]
    dec fetch parse
  have "AvroSerializer_deserialize_with_schema demo_lib ?ops [0, 0, 0, 0, 1, 104, 105]
      text_model ?self
    = (case schemaless_reader demo_lib [104, 105] (JStr ''{x:str}'') None of
               Inl e \<Rightarrow>
                 (Inl (deserialize_except ''Failed to deserialize message with schema: '' e), ?self)
             | Inr obj_dict \<Rightarrow>
                 (case parse_obj text_model obj_dict of
                    Inl e \<Rightarrow>
                      (Inl (deserialize_except ''Failed to deserialize message with schema: '' e),
                       ?self)
                  | Inr obj \<Rightarrow> (Inr (obj, ?rs), ?self)))"
    by blast
  moreover have "schemaless_reader demo_lib [104, 105] (JStr ''{x:str}'') None = Inr (JStr ''hi'')"
    by code_simp
  moreover have "parse_obj text_model (JStr ''hi'') = Inr ''hi''"
    by (simp add: text_model_def)
  ultimately show ?thesis by simp
qed












section \<open>The HTTP client: existence check and fingerprint search\<close>

text \<open>
  C10. \<^verbatim>\<open>InMemoryClient.check_artifact_exists\<close> never raises and leaves the registry
  as it is: it returns True exactly when the coordinate has at least one version.
  \<^verbatim>\<open>ApicurioClient.check_artifact_exists\<close> issues one request (the HTTP client
  object is created first if there is none). If the request is answered, the result is
  True exactly when the status is 200, so False for any other status, such as 404 for an
  artifact the registry does not have. If issuing the request raises an
  \<^verbatim>\<open>HTTPStatusError\<close> or a \<^verbatim>\<open>RequestError\<close>, the result is False. If it raises an
  exception of any other class, that exception is raised to the caller: the method can
  raise.
\<close>

theorem C10_check_artifact_exists:
  "InMemoryClient_check_artifact_exists g a reg = (Inr (versions_of reg (g, a) \<noteq> []), reg)
   \<and> ApicurioClient_check_artifact_exists T g a self
       = (case fst (http_get T (''/apis/registry/v3/groups/'' @ g @ ''/artifacts/'' @ a) []
                      (net self)) of
            Inr resp \<Rightarrow> Inr (status_code resp = 200)
          | Inl e \<Rightarrow> if httpx_error e then Inr False else Inl e,
          (ensure_client self)
            \<lparr>net := snd (http_get T (''/apis/registry/v3/groups/'' @ g @ ''/artifacts/'' @ a) []
                       (net self))\<rparr>)"
proof (intro conjI)
  show "InMemoryClient_check_artifact_exists g a reg = (Inr (versions_of reg (g, a) \<noteq> []), reg)"
    by (simp add: InMemoryClient_check_artifact_exists_def versions_of_def split: option.splits)
next
  let ?url = "''/apis/registry/v3/groups/'' @ g @ ''/artifacts/'' @ a"
  obtain r w where g: "http_get T ?url [] (net self) = (r, w)"
    by (cases "http_get T ?url [] (net self)")
  have n: "net (ensure_client self) = net self" by (simp add: ensure_client_def)
  show "ApicurioClient_check_artifact_exists T g a self
       = (case fst (http_get T ?url [] (net self)) of
            Inr resp \<Rightarrow> Inr (status_code resp = 200)
          | Inl e \<Rightarrow> if httpx_error e then Inr False else Inl e,
          (ensure_client self)\<lparr>net := snd (http_get T ?url [] (net self))\<rparr>)"
  proof (cases r)
    case (Inr resp)
    with g n show ?thesis
      by (simp add: ApicurioClient_check_artifact_exists_def http_call_def)
  next
    case (Inl e)
    with g n show ?thesis
      by (simp add: ApicurioClient_check_artifact_exists_def http_call_def httpx_error_def
          split: exn_kind.splits)
  qed
qed

text \<open>
  \<^verbatim>\<open>ApicurioClient.check_artifact_exists\<close> raises: for an artifact id with a line feed
  in it, the transport refuses the URL with an exception that is neither an
  \<^verbatim>\<open>HTTPStatusError\<close> nor a \<^verbatim>\<open>RequestError\<close>, no handler catches it, and the call
  ends with that exception instead of returning False.
\<close>

theorem C10_invalid_url_counterexample:
  "ApicurioClient_check_artifact_exists strict_net ''g'' [CHR ''a'', CHR 0x0A, CHR ''b'']
       \<lparr>connected = False, schema_cache = Map.empty, net = ()\<rparr>
     = (Inl (Exn (OtherException ''InvalidURL'')
               ''Invalid non-printable ASCII character in URL'' None),
        \<lparr>connected = True, schema_cache = Map.empty, net = ()\<rparr>)"
  by (simp add: ApicurioClient_check_artifact_exists_def http_call_def ensure_client_def
      strict_net_def)

theorem C10_check_artifact_exists_witness:
  "InMemoryClient_check_artifact_exists ''g'' ''a'' demo_registry = (Inr True, demo_registry)
   \<and> InMemoryClient_check_artifact_exists ''g'' ''b'' demo_registry = (Inr False, demo_registry)
   \<and> ApicurioClient_check_artifact_exists demo_net ''g'' ''c''
        \<lparr>connected = False, schema_cache = Map.empty, net = ()\<rparr>
      = (Inr True, \<lparr>connected = True, schema_cache = Map.empty, net = ()\<rparr>)
   \<and> ApicurioClient_check_artifact_exists demo_net ''g'' ''down''
        \<lparr>connected = False, schema_cache = Map.empty, net = ()\<rparr>
      = (Inr False, \<lparr>connected = True, schema_cache = Map.empty, net = ()\<rparr>)
   \<and> ApicurioClient_check_artifact_exists demo_net ''g'' ''zz''
        \<lparr>connected = False, schema_cache = Map.empty, net = ()\<rparr>
      = (Inr False, \<lparr>connected = True, schema_cache = Map.empty, net = ()\<rparr>)"
proof -
  let ?self = "\<lparr>connected = False, schema_cache = Map.empty, net = ()\<rparr>
    :: unit ApicurioClient"
  show ?thesis
    using C10_check_artifact_exists [where g = "''g''" and a = "''a''" and reg = demo_registry
        and T = demo_net and self = ?self]
      C10_check_artifact_exists [where g = "''g''" and a = "''b''" and reg = demo_registry
        and T = demo_net and self = ?self]
      C10_check_artifact_exists [where g = "''g''" and a = "''c''" and reg = demo_registry
        and T = demo_net and self = ?self]
      C10_check_artifact_exists [where g = "''g''" and a = "''down''" and reg = demo_registry
        and T = demo_net and self = ?self]
      C10_check_artifact_exists [where g = "''g''" and a = "''zz''" and reg = demo_registry
        and T = demo_net and self = ?self]
    by (simp add: versions_of_def demo_registry_def demo_net_def ensure_client_def
        httpx_error_def)
qed











end
